theory Spec2Isabelle
  imports Complex_Main "HOL-Library.Sublist"
begin

section \<open>JavaScript values as the client sees them\<close>

text \<open>
  The client is TypeScript; everything it receives from the server goes through
  \<^verbatim>\<open>JSON.parse\<close> or \<^verbatim>\<open>response.json()\<close> and is an untyped JSON value at run time.
  Numbers that come out of JSON are finite doubles, hence rationals. Strings are kept as
  lists of characters. An object is an association list in source order; a later
  duplicate key wins, as in \<^verbatim>\<open>JSON.parse\<close>.
\<close>

datatype json =
    JNull
  | JBool bool
  | JNum rat
  | JStr string
  | JArr "json list"
  | JObj "(string \<times> json) list"

text \<open>
  Exceptions: \<open>SyntaxError\<close> is what \<^verbatim>\<open>JSON.parse\<close> and \<^verbatim>\<open>response.json()\<close> throw on a
  body that is not JSON; \<open>TypeError\<close> is a property read on \<^verbatim>\<open>null\<close>, a call of a method
  the value does not have, and a rejected \<^verbatim>\<open>fetch\<close>; \<open>DOMSyntaxError\<close> is what
  \<^verbatim>\<open>new WebSocket(url)\<close> throws for a URL it refuses; \<open>Error m\<close> is an \<^verbatim>\<open>Error\<close> whose
  \<^verbatim>\<open>message\<close> is the string \<open>m\<close>.
\<close>

datatype exn = SyntaxError | TypeError | DOMSyntaxError | Error string

text \<open>
  \<^verbatim>\<open>v.k\<close> for a value \<open>v\<close> returned by the JSON parser and one of the property names
  this client reads (\<^verbatim>\<open>type\<close>, \<^verbatim>\<open>progress\<close>, \<^verbatim>\<open>current_step\<close>, \<^verbatim>\<open>output_path\<close>,
  \<^verbatim>\<open>error\<close>, \<^verbatim>\<open>detail\<close>, \<^verbatim>\<open>videos\<close>, \<^verbatim>\<open>checkpoints\<close>, \<^verbatim>\<open>loras\<close>, \<^verbatim>\<open>job_id\<close>): reading
  a property of \<^verbatim>\<open>null\<close> throws, an object gives its own entry or \<^verbatim>\<open>undefined\<close>
  (\<open>None\<close>), and booleans, numbers, strings and arrays have none of these names.
\<close>

fun get_prop :: "json \<Rightarrow> string \<Rightarrow> exn + json option" where
  "get_prop JNull k = Inl TypeError"
| "get_prop (JObj kvs) k = Inr (map_of (rev kvs) k)"
| "get_prop v k = Inr None"

text \<open>Truthiness of a value that may be \<^verbatim>\<open>undefined\<close>, and the operator \<^verbatim>\<open>a || b\<close>.\<close>

fun truthy :: "json option \<Rightarrow> bool" where
  "truthy None = False"
| "truthy (Some JNull) = False"
| "truthy (Some (JBool b)) = b"
| "truthy (Some (JNum r)) = (r \<noteq> 0)"
| "truthy (Some (JStr s)) = (s \<noteq> [])"
| "truthy (Some (JArr xs)) = True"
| "truthy (Some (JObj kvs)) = True"

fun or_else :: "json option \<Rightarrow> json \<Rightarrow> json" where
  "or_else None d = d"
| "or_else (Some v) d = (if truthy (Some v) then v else d)"

text \<open>
  \<^verbatim>\<open>String(v)\<close>, the conversion \<^verbatim>\<open>new Error(v)\<close> applies to its argument to get the message.
  A string is itself, an object is \<^verbatim>\<open>[object Object]\<close> whatever it holds, an array is its
  elements' texts joined by commas with \<^verbatim>\<open>null\<close> elements empty. How a number is written
  out is the engine's \<^verbatim>\<open>Number.prototype.toString\<close>, the parameter \<open>num_text\<close>.
\<close>

fun join_comma :: "string list \<Rightarrow> string" where
  "join_comma [] = []"
| "join_comma [x] = x"
| "join_comma (x # y # ys) = x @ '','' @ join_comma (y # ys)"

fun js_String :: "(rat \<Rightarrow> string) \<Rightarrow> json \<Rightarrow> string" where
  "js_String num_text JNull = ''null''"
| "js_String num_text (JBool b) = (if b then ''true'' else ''false'')"
| "js_String num_text (JNum r) = num_text r"
| "js_String num_text (JStr s) = s"
| "js_String num_text (JArr xs) =
     join_comma (map (\<lambda>x. if x = JNull then [] else js_String num_text x) xs)"
| "js_String num_text (JObj kvs) = ''[object Object]''"

text \<open>
  Whether the text of a value that may be \<^verbatim>\<open>undefined\<close> contains the character \<^verbatim>\<open>#\<close>. The
  texts of numbers, booleans, \<^verbatim>\<open>null\<close>, \<^verbatim>\<open>undefined\<close> and objects do not, however a number
  is written out.
\<close>

fun has_hash :: "json \<Rightarrow> bool" where
  "has_hash (JStr s) = (CHR ''#'' \<in> set s)"
| "has_hash (JArr xs) = list_ex has_hash xs"
| "has_hash v = False"


section \<open>The parameter panel: frame counts\<close>

text \<open>
  \<^verbatim>\<open>Math.round\<close> rounds to the nearest integer, a half towards plus infinity. Its
  argument below is \<^verbatim>\<open>(v - 1) / 8\<close>, which doubles compute exactly.
\<close>

definition Math_round :: "rat \<Rightarrow> int" where
  "Math_round x = \<lfloor>x + 1 / 2\<rfloor>"

text \<open>
  The frames slider, parameter-panel.tsx:
  \<^verbatim>\<open>onValueChange={([v]) => onParamsChange({ num_frames: 1 + Math.round((v - 1) / 8) * 8 })}\<close>
  with \<^verbatim>\<open>min={9} max={4097} step={8}\<close>. The slider component hands over a position
  between its \<^verbatim>\<open>min\<close> and \<^verbatim>\<open>max\<close>.
\<close>

definition slider_min :: rat where "slider_min = 9"
definition slider_max :: rat where "slider_max = 4097"

definition frames_slider_onValueChange :: "rat \<Rightarrow> int" where
  "frames_slider_onValueChange v = 1 + Math_round ((v - 1) / 8) * 8"

text \<open>
  The preset buttons set \<^verbatim>\<open>num_frames\<close> to the \<^verbatim>\<open>value\<close> of their entry of
  \<^verbatim>\<open>framePresets\<close>: 17, 33, 65, 241, 721, 1441, 2881 and 4097.
\<close>

definition framePresets :: "int list" where
  "framePresets = [17, 33, 65, 241, 721, 1441, 2881, 4097]"

text \<open>
  \<^verbatim>\<open>parseInt(s, 10)\<close>: leading white space is skipped, one sign is read, then the longest
  run of decimal digits; no digit gives \<^verbatim>\<open>NaN\<close> (\<open>None\<close>). The value is kept exact
  here; a double rounds it from \<open>2 ^ 53\<close> on, far outside the range the handler clamps to.
\<close>

definition is_white_space :: "char \<Rightarrow> bool" where
  "is_white_space c = (c \<in> set [CHR 0x09, CHR 0x0A, CHR 0x0B, CHR 0x0C, CHR 0x0D, CHR 0x20, CHR 0xA0])"

definition digit_table :: "(char \<times> int) list" where
  "digit_table = zip ''0123456789'' [0, 1, 2, 3, 4, 5, 6, 7, 8, 9]"

definition is_digit :: "char \<Rightarrow> bool" where
  "is_digit c = (map_of digit_table c \<noteq> None)"

definition digits_value :: "string \<Rightarrow> int" where
  "digits_value ds = foldl (\<lambda>a c. 10 * a + (case map_of digit_table c of Some d \<Rightarrow> d | None \<Rightarrow> 0)) 0 ds"

definition parseInt10 :: "string \<Rightarrow> int option" where
  "parseInt10 s =
     (let t = dropWhile is_white_space s;
          neg = (case t of c # r \<Rightarrow> c = CHR ''-'' | [] \<Rightarrow> False);
          u = (case t of c # r \<Rightarrow> if c = CHR ''-'' \<or> c = CHR ''+'' then r else t | [] \<Rightarrow> []);
          ds = takeWhile is_digit u
      in if ds = [] then None
         else Some (if neg then - digits_value ds else digits_value ds))"

text \<open>
  The numeric input beside the slider:
  \<^verbatim>\<open>
  const v = parseInt(e.target.value, 10);
  if (!Number.isNaN(v)) {
    const adjusted = 1 + Math.round((v - 1) / 8) * 8;
    onParamsChange({ num_frames: Math.max(9, Math.min(4097, adjusted)) });
  }\<close>
  \<open>None\<close> is the branch that leaves \<^verbatim>\<open>num_frames\<close> alone.
\<close>

definition frames_input_onChange :: "string \<Rightarrow> int option" where
  "frames_input_onChange s =
     (case parseInt10 s of
        None \<Rightarrow> None
      | Some v \<Rightarrow>
          (let adjusted = 1 + Math_round ((of_int v - 1) / 8) * 8
           in Some (max 9 (min 4097 adjusted))))"


section \<open>The progress indicator: which step is current\<close>

text \<open>\<^verbatim>\<open>String.prototype.toLowerCase\<close> on the letters the markers are made of.\<close>

definition lower_table :: "(char \<times> char) list" where
  "lower_table = zip ''ABCDEFGHIJKLMNOPQRSTUVWXYZ'' ''abcdefghijklmnopqrstuvwxyz''"

definition toLowerCase :: "string \<Rightarrow> string" where
  "toLowerCase s = map (\<lambda>c. case map_of lower_table c of Some l \<Rightarrow> l | None \<Rightarrow> c) s"

text \<open>\<^verbatim>\<open>s.includes(k)\<close>: \<open>k\<close> occurs in \<open>s\<close> as a contiguous run.\<close>

fun includes_str :: "string \<Rightarrow> string \<Rightarrow> bool" where
  "includes_str [] k = (k = [])"
| "includes_str (c # s) k = (prefix k (c # s) \<or> includes_str s k)"

text \<open>
  progress-indicator.tsx:
  \<^verbatim>\<open>
  const steps = [
    { icon: Zap, label: "Initializing", threshold: 0 },
    { icon: Sparkles, label: "Denoising", threshold: 10 },
    { icon: Film, label: "Decoding", threshold: 85 },
    { icon: Download, label: "Finalizing", threshold: 95 },
  ];\<close>
\<close>

definition steps_threshold :: "rat list" where
  "steps_threshold = [0, 10, 85, 95]"

text \<open>
  \<^verbatim>\<open>for (let i = steps.length - 1; i >= 0; i--) { if (progress >= steps[i].threshold) return i; }\<close>
  started at index \<open>i\<close>; \<open>None\<close> when the loop falls through.
\<close>

fun threshold_loop :: "rat \<Rightarrow> nat \<Rightarrow> nat option" where
  "threshold_loop progress 0 =
     (if progress \<ge> steps_threshold ! 0 then Some 0 else None)"
| "threshold_loop progress (Suc i) =
     (if progress \<ge> steps_threshold ! Suc i then Some (Suc i) else threshold_loop progress i)"

text \<open>
  \<^verbatim>\<open>
  const getCurrentStepIndex = () => {
    const stepText = (currentStep || "").toLowerCase();
    if (stepText.includes("saving") || stepText.includes("finaliz") || stepText.includes("mux")) return 3;
    if (stepText.includes("decod") || stepText.includes("streaming frames")) return 2;
    if (stepText.includes("denois") || stepText.includes("stage 1") || stepText.includes("stage 2")) return 1;
    if (stepText.includes("load") || stepText.includes("encod")) return 0;
    for (let i = steps.length - 1; i >= 0; i--) {
      if (progress >= steps[i].threshold) return i;
    }
    return 0;
  };\<close>
  \<^verbatim>\<open>currentStep\<close> is an optional string property, \<^verbatim>\<open>progress\<close> a number.
\<close>

definition getCurrentStepIndex :: "string option \<Rightarrow> rat \<Rightarrow> nat" where
  "getCurrentStepIndex currentStep progress =
     (let stepText = toLowerCase (case currentStep of None \<Rightarrow> [] | Some s \<Rightarrow> s)
      in if includes_str stepText ''saving'' \<or> includes_str stepText ''finaliz''
            \<or> includes_str stepText ''mux'' then 3
         else if includes_str stepText ''decod'' \<or> includes_str stepText ''streaming frames'' then 2
         else if includes_str stepText ''denois'' \<or> includes_str stepText ''stage 1''
            \<or> includes_str stepText ''stage 2'' then 1
         else if includes_str stepText ''load'' \<or> includes_str stepText ''encod'' then 0
         else (case threshold_loop progress (length steps_threshold - 1) of
                 Some i \<Rightarrow> i
               | None \<Rightarrow> 0))"

text \<open>
  What that first line does with the value it is handed at run time. The property is
  declared a string, but the component passes on what the server sent: a value that is
  truthy and not a string has no \<^verbatim>\<open>toLowerCase\<close>, and the call throws a \<^verbatim>\<open>TypeError\<close>
  while the indicator renders. The video generator renders the indicator whenever its
  status is not idle and hands it its current step as it is stored.
\<close>

definition stepText :: "json \<Rightarrow> exn + string" where
  "stepText currentStep =
     (if \<not> truthy (Some currentStep) then Inr (toLowerCase [])
      else case currentStep of
             JStr s \<Rightarrow> Inr (toLowerCase s)
           | _ \<Rightarrow> Inl TypeError)"

text \<open>
  The markers of the four steps, as a table: the step each marker stands for. It is the
  reading aid for the theorem about \<open>getCurrentStepIndex\<close>; the function itself does
  not use it.
\<close>

definition step_markers :: "(nat \<times> string) list" where
  "step_markers =
     [(3, ''saving''), (3, ''finaliz''), (3, ''mux''),
      (2, ''decod''), (2, ''streaming frames''),
      (1, ''denois''), (1, ''stage 1''), (1, ''stage 2''),
      (0, ''load''), (0, ''encod'')]"

text \<open>A status line mentions step \<open>i\<close> when its lower-cased text holds a marker of \<open>i\<close>.\<close>

definition mentions :: "string \<Rightarrow> nat \<Rightarrow> bool" where
  "mentions line i =
     list_ex (\<lambda>(j, k). j = i \<and> includes_str (toLowerCase line) k) step_markers"


section \<open>The API client\<close>

text \<open>
  What \<^verbatim>\<open>await fetch(...)\<close> gives the client: the promise rejects (no response at all, a
  \<^verbatim>\<open>TypeError\<close>), or it resolves to a response with its \<^verbatim>\<open>ok\<close> flag and its body. The
  body is \<open>None\<close> when it is not JSON, so that \<^verbatim>\<open>response.json()\<close> rejects. The server
  that answers is not part of these sources: its answer is the parameter of every function
  below.
\<close>

datatype fetch_result = NetworkError | Response bool "json option"

definition response_json :: "json option \<Rightarrow> exn + json" where
  "response_json body = (case body of None \<Rightarrow> Inl SyntaxError | Some v \<Rightarrow> Inr v)"

text \<open>
  The shared failure path of the throwing operations:
  \<^verbatim>\<open>const error = await response.json(); throw new Error(error.detail || "<fallback>");\<close>
\<close>

definition throw_detail :: "(rat \<Rightarrow> string) \<Rightarrow> json option \<Rightarrow> string \<Rightarrow> exn" where
  "throw_detail num_text body fallback =
     (case response_json body of
        Inl e \<Rightarrow> e
      | Inr err \<Rightarrow>
          (case get_prop err ''detail'' of
             Inl e \<Rightarrow> e
           | Inr d \<Rightarrow> Error (js_String num_text (or_else d (JStr fallback)))))"

text \<open>
  \<^verbatim>\<open>
  export async function startGeneration(params: GenerationParams): Promise<GenerationJob> {
    const response = await fetch(`${API_BASE}/api/generate`, { method: "POST", ... });
    if (!response.ok) {
      const error = await response.json();
      throw new Error(error.detail || "Failed to start generation");
    }
    return response.json();
  }\<close>
\<close>

definition startGeneration :: "(rat \<Rightarrow> string) \<Rightarrow> fetch_result \<Rightarrow> exn + json" where
  "startGeneration num_text r =
     (case r of
        NetworkError \<Rightarrow> Inl TypeError
      | Response ok body \<Rightarrow>
          if \<not> ok then Inl (throw_detail num_text body ''Failed to start generation'')
          else response_json body)"

text \<open>
  \<^verbatim>\<open>
  export async function stopTraining(jobId: string): Promise<void> {
    const response = await fetch(`${API_BASE}/api/train/${jobId}/stop`, { method: "POST" });
    if (!response.ok) {
      const error = await response.json();
      throw new Error(error.detail || "Failed to stop training");
    }
  }\<close>
\<close>

definition stopTraining :: "(rat \<Rightarrow> string) \<Rightarrow> fetch_result \<Rightarrow> exn + unit" where
  "stopTraining num_text r =
     (case r of
        NetworkError \<Rightarrow> Inl TypeError
      | Response ok body \<Rightarrow>
          if \<not> ok then Inl (throw_detail num_text body ''Failed to stop training'')
          else Inr ())"

text \<open>
  \<^verbatim>\<open>
  export async function deleteVideo(videoId: string): Promise<void> {
    const response = await fetch(`${API_BASE}/api/gallery/${videoId}`, { method: "DELETE" });
    if (!response.ok) {
      const error = await response.json();
      throw new Error(error.detail || "Failed to delete video");
    }
  }\<close>
\<close>

definition deleteVideo :: "(rat \<Rightarrow> string) \<Rightarrow> fetch_result \<Rightarrow> exn + unit" where
  "deleteVideo num_text r =
     (case r of
        NetworkError \<Rightarrow> Inl TypeError
      | Response ok body \<Rightarrow>
          if \<not> ok then Inl (throw_detail num_text body ''Failed to delete video'')
          else Inr ())"

text \<open>
  The three listing operations have one shape:
  \<^verbatim>\<open>
  export async function listVideos(): Promise<GalleryVideo[]> {
    const response = await fetch(`${API_BASE}/api/gallery`);
    if (!response.ok) {
      return [];
    }
    const data = await response.json();
    return data.videos || [];
  }\<close>
  and \<^verbatim>\<open>listCheckpoints\<close> returns \<^verbatim>\<open>data.checkpoints || []\<close>, \<^verbatim>\<open>listLoras\<close> returns
  \<^verbatim>\<open>data.loras || []\<close>.
\<close>

definition listVideos :: "fetch_result \<Rightarrow> exn + json" where
  "listVideos r =
     (case r of
        NetworkError \<Rightarrow> Inl TypeError
      | Response ok body \<Rightarrow>
          if \<not> ok then Inr (JArr [])
          else (case response_json body of
                  Inl e \<Rightarrow> Inl e
                | Inr data \<Rightarrow>
                    (case get_prop data ''videos'' of
                       Inl e \<Rightarrow> Inl e
                     | Inr v \<Rightarrow> Inr (or_else v (JArr [])))))"

definition listCheckpoints :: "fetch_result \<Rightarrow> exn + json" where
  "listCheckpoints r =
     (case r of
        NetworkError \<Rightarrow> Inl TypeError
      | Response ok body \<Rightarrow>
          if \<not> ok then Inr (JArr [])
          else (case response_json body of
                  Inl e \<Rightarrow> Inl e
                | Inr data \<Rightarrow>
                    (case get_prop data ''checkpoints'' of
                       Inl e \<Rightarrow> Inl e
                     | Inr v \<Rightarrow> Inr (or_else v (JArr [])))))"

definition listLoras :: "fetch_result \<Rightarrow> exn + json" where
  "listLoras r =
     (case r of
        NetworkError \<Rightarrow> Inl TypeError
      | Response ok body \<Rightarrow>
          if \<not> ok then Inr (JArr [])
          else (case response_json body of
                  Inl e \<Rightarrow> Inl e
                | Inr data \<Rightarrow>
                    (case get_prop data ''loras'' of
                       Inl e \<Rightarrow> Inl e
                     | Inr v \<Rightarrow> Inr (or_else v (JArr [])))))"

text \<open>
  An event handler runs on the component's state and may throw on the way: the result is
  the exception, if any, and the state as the handler left it.
  \<^verbatim>\<open>try { body } catch (e) { console.error(...) }\<close> keeps the state the body reached and
  ends normally.
\<close>

type_synonym 's handler = "'s \<Rightarrow> exn option \<times> 's"

definition try_catch_log :: "'s handler \<Rightarrow> 's handler" where
  "try_catch_log body s = (case body s of (None, s') \<Rightarrow> (None, s') | (Some e, s') \<Rightarrow> (None, s'))"

text \<open>
  \<^verbatim>\<open>
  export function connectWebSocket(jobId, onMessage, onError?, onClose?): WebSocket {
    ...
    ws.onmessage = (event) => {
      try {
        const update = JSON.parse(event.data);
        onMessage(update);
      } catch (e) {
        console.error("Failed to parse WebSocket message:", e);
      }
    };
    ws.onerror = (error) => {
      console.error("WebSocket error:", error);
      onError?.(error);
    };
    ws.onclose = () => {
      onClose?.();
    };
    return ws;
  }\<close>
  \<^verbatim>\<open>JSON.parse\<close> is the parameter \<open>JSON_parse\<close>; \<open>None\<close> is its \<^verbatim>\<open>SyntaxError\<close>.
\<close>

definition ws_onmessage ::
  "(string \<Rightarrow> json option) \<Rightarrow> (json \<Rightarrow> 's handler) \<Rightarrow> string \<Rightarrow> 's handler" where
  "ws_onmessage JSON_parse onMessage data =
     try_catch_log (\<lambda>s. case JSON_parse data of
                            None \<Rightarrow> (Some SyntaxError, s)
                          | Some update \<Rightarrow> onMessage update s)"

definition ws_onerror :: "'s handler option \<Rightarrow> 's handler" where
  "ws_onerror onError s = (case onError of None \<Rightarrow> (None, s) | Some f \<Rightarrow> f s)"

definition ws_onclose :: "'s handler option \<Rightarrow> 's handler" where
  "ws_onclose onClose s = (case onClose of None \<Rightarrow> (None, s) | Some f \<Rightarrow> f s)"

text \<open>What can happen on an open socket.\<close>

datatype ws_event = Message string | TransportError | Closed


section \<open>The video generator component\<close>

text \<open>
  The state of \<^verbatim>\<open>VideoGenerator\<close>:
  \<^verbatim>\<open>
  const [status, setStatus] = useState<"idle" | "pending" | "processing" | "completed" | "error">("idle");
  const [progress, setProgress] = useState(0);
  const [currentStep, setCurrentStep] = useState("");
  const [error, setError] = useState<string | undefined>();
  const [videoPath, setVideoPath] = useState<string | undefined>();
  const [history, setHistory] = useState<GenerationHistory[]>([]);\<close>
  The fields hold what the handlers store in them at run time, which is whatever JSON the
  server sent. An error text is \<^verbatim>\<open>undefined\<close>, a value taken from a message or a literal,
  or the \<^verbatim>\<open>message\<close> of a caught exception. A history entry keeps the job id, the
  parameters and the video path; its time stamp is left out.
\<close>

datatype ui_status = StIdle | StPending | StProcessing | StCompleted | StError

datatype shown_error = ErrUndefined | ErrValue json | ErrMessage exn

record 'p history_item =
  hist_id :: "json option"
  hist_params :: 'p
  hist_videoPath :: "json option"

record 'p generator_state =
  status :: ui_status
  progress :: json
  currentStep :: json
  error :: shown_error
  videoPath :: "json option"
  history :: "'p history_item list"

definition initial_generator_state :: "'p generator_state" where
  "initial_generator_state =
     \<lparr>status = StIdle, progress = JNum 0, currentStep = JStr [], error = ErrUndefined,
      videoPath = None, history = []\<rparr>"

text \<open>\<^verbatim>\<open>const isGenerating = status === "processing" || status === "pending";\<close>\<close>

definition isGenerating :: "'p generator_state \<Rightarrow> bool" where
  "isGenerating s = (status s = StProcessing \<or> status s = StPending)"

text \<open>A property read on a value already known not to be \<^verbatim>\<open>null\<close>.\<close>

definition field_of :: "json \<Rightarrow> string \<Rightarrow> json option" where
  "field_of v k = (case get_prop v k of Inl e \<Rightarrow> None | Inr x \<Rightarrow> x)"

text \<open>
  The message callback that \<^verbatim>\<open>handleGenerate\<close> hands to \<^verbatim>\<open>connectWebSocket\<close>; \<open>job_id\<close> and
  \<open>params\<close> are what the closure captured:
  \<^verbatim>\<open>
  (update: ProgressUpdate) => {
    if (update.type === "progress") {
      setStatus("processing");
      setProgress(update.progress || 0);
      setCurrentStep(update.current_step || "Processing...");
    } else if (update.type === "complete") {
      setStatus("completed");
      setProgress(100);
      setVideoPath(update.output_path);
      setHistory((prev) => [
        { id: job.job_id, params: { ...params }, videoPath: update.output_path, timestamp: new Date() },
        ...prev.slice(0, 9),
      ]);
    } else if (update.type === "error") {
      setStatus("error");
      setError(update.error);
    }
  }\<close>
  The first read, \<^verbatim>\<open>update.type\<close>, throws when the message was the JSON \<^verbatim>\<open>null\<close>; nothing
  has been set by then. A later revision of the component also stores
  \<^verbatim>\<open>update.output_path\<close> on a progress message that carries one and forgets the last job id
  in local storage on a terminal message; status, progress, step and error are set in the
  same way.
\<close>

definition onMessage :: "json option \<Rightarrow> 'p \<Rightarrow> json \<Rightarrow> 'p generator_state handler" where
  "onMessage job_id params update s =
     (case get_prop update ''type'' of
        Inl e \<Rightarrow> (Some e, s)
      | Inr ty \<Rightarrow>
          if ty = Some (JStr ''progress'') then
            (None, s\<lparr>status := StProcessing,
                      progress := or_else (field_of update ''progress'') (JNum 0),
                      currentStep := or_else (field_of update ''current_step'') (JStr ''Processing...'')\<rparr>)
          else if ty = Some (JStr ''complete'') then
            (None, s\<lparr>status := StCompleted,
                      progress := JNum 100,
                      videoPath := field_of update ''output_path'',
                      history :=
                        \<lparr>hist_id = job_id, hist_params = params,
                         hist_videoPath = field_of update ''output_path''\<rparr> # take 9 (history s)\<rparr>)
          else if ty = Some (JStr ''error'') then
            (None, s\<lparr>status := StError,
                      error := (case field_of update ''error'' of
                                  None \<Rightarrow> ErrUndefined
                                | Some v \<Rightarrow> ErrValue v)\<rparr>)
          else (None, s))"

text \<open>The other two callbacks: \<^verbatim>\<open>() => setError("Connection lost")\<close> and \<^verbatim>\<open>() => {}\<close>.\<close>

definition onError :: "'p generator_state handler" where
  "onError s = (None, s\<lparr>error := ErrValue (JStr ''Connection lost'')\<rparr>)"

definition onClose :: "'p generator_state handler" where
  "onClose s = (None, s)"

text \<open>One event on the socket that \<^verbatim>\<open>handleGenerate\<close> opened.\<close>

definition socket_event ::
  "(string \<Rightarrow> json option) \<Rightarrow> json option \<Rightarrow> 'p \<Rightarrow> ws_event \<Rightarrow> 'p generator_state handler" where
  "socket_event JSON_parse job_id params ev =
     (case ev of
        Message data \<Rightarrow> ws_onmessage JSON_parse (onMessage job_id params) data
      | TransportError \<Rightarrow> ws_onerror (Some onError)
      | Closed \<Rightarrow> ws_onclose (Some onClose))"

text \<open>
  The events of a connection in order. An exception that escapes a handler is reported by
  the browser and the next event is handled on the state the handler left.
\<close>

fun socket_run ::
  "(string \<Rightarrow> json option) \<Rightarrow> json option \<Rightarrow> 'p \<Rightarrow> ws_event list \<Rightarrow> 'p generator_state
     \<Rightarrow> 'p generator_state" where
  "socket_run JSON_parse job_id params [] s = s"
| "socket_run JSON_parse job_id params (ev # evs) s =
     socket_run JSON_parse job_id params evs (snd (socket_event JSON_parse job_id params ev s))"

text \<open>
  The states the component passes through while the message callback receives the updates
  \<open>us\<close> one after another: what the progress bar shows after each.
\<close>

fun feed :: "json option \<Rightarrow> 'p \<Rightarrow> json list \<Rightarrow> 'p generator_state \<Rightarrow> 'p generator_state list" where
  "feed job_id params [] s = []"
| "feed job_id params (u # us) s =
     (let s' = snd (onMessage job_id params u s) in s' # feed job_id params us s')"

text \<open>\<^verbatim>\<open>String.prototype.trim\<close>, and \<^verbatim>\<open>handleGenerate\<close> up to the socket:
  \<^verbatim>\<open>
  const handleGenerate = async () => {
    if (!params.prompt.trim()) return;
    setStatus("pending");
    setProgress(0);
    setCurrentStep("Starting generation...");
    setError(undefined);
    setVideoPath(undefined);
    try {
      const job = await startGeneration(params);
      const ws = connectWebSocket(job.job_id, ...);
      return () => ws.close();
    } catch (e) {
      setStatus("error");
      setError(e instanceof Error ? e.message : "Failed to start generation");
    }
  };\<close>
  The result is the new state and the socket, if one was opened: the job id it was opened
  for. Every exception thrown here is an \<^verbatim>\<open>Error\<close>, so the text shown is its message.
  \<^verbatim>\<open>connectWebSocket\<close> builds the URL \<^verbatim>\<open>`${wsBase}/api/ws/progress/${jobId}`\<close>, and
  \<^verbatim>\<open>new WebSocket\<close> throws for a URL with a fragment, that is when the text of the job id
  contains \<^verbatim>\<open>#\<close>; the \<^verbatim>\<open>catch\<close> takes that exception like the others.
\<close>

definition trim :: "string \<Rightarrow> string" where
  "trim s = rev (dropWhile is_white_space (rev (dropWhile is_white_space s)))"

definition handleGenerate ::
  "(rat \<Rightarrow> string) \<Rightarrow> string \<Rightarrow> fetch_result \<Rightarrow> 'p generator_state
     \<Rightarrow> 'p generator_state \<times> json option option" where
  "handleGenerate num_text prompt r s =
     (if trim prompt = [] then (s, None)
      else
        (let s1 = s\<lparr>status := StPending, progress := JNum 0,
                     currentStep := JStr ''Starting generation...'',
                     error := ErrUndefined, videoPath := None\<rparr>
         in case startGeneration num_text r of
              Inl e \<Rightarrow> (s1\<lparr>status := StError, error := ErrMessage e\<rparr>, None)
            | Inr job \<Rightarrow>
                (case get_prop job ''job_id'' of
                   Inl e \<Rightarrow> (s1\<lparr>status := StError, error := ErrMessage e\<rparr>, None)
                 | Inr job_id \<Rightarrow>
                     if (case job_id of None \<Rightarrow> False | Some v \<Rightarrow> has_hash v)
                     then (s1\<lparr>status := StError, error := ErrMessage DOMSyntaxError\<rparr>, None)
                     else (s1, Some job_id))))"


section \<open>The training form\<close>

text \<open>
  \<^verbatim>\<open>TrainingJob["status"]\<close> is \<^verbatim>\<open>"pending" | "training" | "completed" | "error" | "stopped"\<close>
  and \<^verbatim>\<open>GenerationJob["status"]\<close> is \<^verbatim>\<open>"pending" | "processing" | "completed" | "error"\<close>.
\<close>

datatype training_status = TrPending | TrTraining | TrCompleted | TrError | TrStopped

datatype generation_status = GenPending | GenProcessing | GenCompleted | GenError

text \<open>
  The part of the state of \<^verbatim>\<open>TrainingForm\<close> that stopping touches:
  \<^verbatim>\<open>
  const [status, setStatus] = useState<TrainingJob["status"]>("pending");
  const [error, setError] = useState<string | null>(null);
  const [jobId, setJobId] = useState<string | null>(null);\<close>
\<close>

record training_state =
  t_status :: training_status
  t_error :: shown_error
  t_jobId :: "json option"

text \<open>\<^verbatim>\<open>const isTraining = status === "training" || status === "pending";\<close>\<close>

definition isTraining :: "training_state \<Rightarrow> bool" where
  "isTraining s = (t_status s = TrTraining \<or> t_status s = TrPending)"

text \<open>
  \<^verbatim>\<open>
  const handleStopTraining = async () => {
    if (jobId) {
      try {
        await stopTraining(jobId);
        setStatus("stopped");
      } catch (e) {
        setError(e instanceof Error ? e.message : "Failed to stop training");
      }
    }
  };\<close>
\<close>

definition handleStopTraining ::
  "(rat \<Rightarrow> string) \<Rightarrow> fetch_result \<Rightarrow> training_state \<Rightarrow> training_state" where
  "handleStopTraining num_text r s =
     (if \<not> truthy (t_jobId s) then s
      else case stopTraining num_text r of
             Inl e \<Rightarrow> s\<lparr>t_error := ErrMessage e\<rparr>
           | Inr u \<Rightarrow> s\<lparr>t_status := TrStopped\<rparr>)"


section \<open>The job service, modelled from the specification\<close>

text \<open>
  The sources hold the browser client only. The service it talks to (job controller, job
  registry, event broadcaster) is described by the specification and modelled here from
  its words; every definition of this section says which.
\<close>

text \<open>
  Modelled from the spec: the job status of section 3, \<^verbatim>\<open>enum {pending, running, completed,
  error, stopped}\<close>. The backend that holds it is not among the sources.
\<close>

datatype job_status = JobPending | JobRunning | JobCompleted | JobError | JobStopped

text \<open>
  Modelled from the spec: the glossary's terminal states, \<^verbatim>\<open>completed\<close>, \<^verbatim>\<open>error\<close> or
  \<^verbatim>\<open>stopped\<close>. No such predicate is among the sources.
\<close>

fun terminal :: "job_status \<Rightarrow> bool" where
  "terminal JobCompleted = True"
| "terminal JobError = True"
| "terminal JobStopped = True"
| "terminal s = False"

text \<open>
  Modelled from the spec: what the job controller of section 4.4 reacts to (the controller is
  not among the sources): the worker confirmed started, a first progress event, the worker's
  exit with its code and whether an artifact reference was produced, a parsed error line, a
  failed launch, an accepted cancellation.
\<close>

datatype signal =
    WorkerStarted
  | FirstProgress
  | WorkerExit int bool
  | ErrorLine
  | LaunchFailed
  | CancelAccepted

text \<open>
  Modelled from the spec: the state machine of section 4.4 (the controller is not among the
  sources). \<^verbatim>\<open>pending -> running\<close> on first progress or worker start; \<^verbatim>\<open>running ->
  completed\<close> when the worker exits 0 and produced an artifact, \<^verbatim>\<open>error\<close> when it exits 0
  without one or exits non-zero, on an error line and on a failed launch (which section 4.1
  makes an immediate terminal error, so it is taken from \<^verbatim>\<open>pending\<close> too);
  \<^verbatim>\<open>running/pending -> stopped\<close> on cancellation; no transition out of a terminal state.
  A signal the section names no transition for leaves the status as it is.
\<close>

fun transition :: "job_status \<Rightarrow> signal \<Rightarrow> job_status" where
  "transition JobPending WorkerStarted = JobRunning"
| "transition JobPending FirstProgress = JobRunning"
| "transition JobPending LaunchFailed = JobError"
| "transition JobPending CancelAccepted = JobStopped"
| "transition JobRunning (WorkerExit code artifact) =
     (if code = 0 \<and> artifact then JobCompleted else JobError)"
| "transition JobRunning ErrorLine = JobError"
| "transition JobRunning LaunchFailed = JobError"
| "transition JobRunning CancelAccepted = JobStopped"
| "transition s sig = s"

text \<open>
  Modelled from the spec: the progress snapshot of section 3 (phase, fraction, label) and
  the part of the job record the claims speak of, its status and last-known progress. The
  registry that stores them is not among the sources.
\<close>

datatype phase = Initializing | Downloading | Computing | Decoding | Finalizing

record snapshot =
  snap_phase :: phase
  snap_fraction :: rat
  snap_label :: string

record job =
  j_status :: job_status
  j_progress :: snapshot

text \<open>
  Modelled from the spec: a job as the controller creates it on acceptance, section 2: a
  registry entry in \<^verbatim>\<open>pending\<close> state. The controller is not among the sources.
\<close>

definition new_job :: job where
  "new_job = \<lparr>j_status = JobPending,
              j_progress = \<lparr>snap_phase = Initializing, snap_fraction = 0, snap_label = []\<rparr>\<rparr>"

text \<open>
  Modelled from the spec: the events of a job's topic, section 4.3 (the broadcaster is not
  among the sources): the synthesized current state built from a registry record, a live
  progress event, and the terminal event built from the final record.
\<close>

datatype event = CurrentState job | ProgressEvent snapshot | TerminalEvent job

text \<open>
  Modelled from the spec: what a new subscriber is sent first, section 4.3: the current state
  from the registry's latest record, which for a job that has ended is the single synthetic
  terminal event reconstructed from the registry. The broadcaster is not among the sources.
\<close>

definition snapshot_event :: "job \<Rightarrow> event" where
  "snapshot_event j = (if terminal (j_status j) then TerminalEvent j else CurrentState j)"

text \<open>
  Modelled from the spec: an observer subscription of section 3, one live connection watching
  one job's topic, with the messages delivered to it so far in order and whether it is still
  attached to the live stream. The broadcaster is not among the sources.
\<close>

record subscription =
  sub_job :: string
  sub_delivered :: "event list"
  sub_attached :: bool

text \<open>
  Modelled from the spec: the service state, the job registry of section 2 and the
  broadcaster's subscriptions by connection. \<open>published\<close> is the log of every event
  published on a job's topic, in publish order; it is only there to say which events are the
  live ones. Registry and broadcaster are not among the sources.
\<close>

record service =
  registry :: "string \<rightharpoonup> job"
  subscriptions :: "nat \<rightharpoonup> subscription"
  published :: "string \<Rightarrow> event list"

text \<open>
  Modelled from the spec: the service before any job was submitted; nothing of it is among
  the sources.
\<close>

definition empty_service :: service where
  "empty_service = \<lparr>registry = Map.empty, subscriptions = Map.empty, published = (\<lambda>jid. [])\<rparr>"

text \<open>
  Modelled from the spec: publishing on a topic, section 4.3: every subscriber attached to the
  job receives the event, in publish order. The broadcaster is not among the sources.
\<close>

definition deliver :: "string \<Rightarrow> event \<Rightarrow> (nat \<rightharpoonup> subscription) \<Rightarrow> (nat \<rightharpoonup> subscription)" where
  "deliver jid ev subs =
     (\<lambda>c. case subs c of
             None \<Rightarrow> None
           | Some sub \<Rightarrow>
               if sub_job sub = jid \<and> sub_attached sub
               then Some (sub\<lparr>sub_delivered := sub_delivered sub @ [ev]\<rparr>)
               else Some sub)"

text \<open>
  Modelled from the spec: tearing a topic down, section 4.3: after the terminal event the
  subscribers of the job are no longer attached. The broadcaster is not among the sources.
\<close>

definition detach :: "string \<Rightarrow> (nat \<rightharpoonup> subscription) \<Rightarrow> (nat \<rightharpoonup> subscription)" where
  "detach jid subs =
     (\<lambda>c. case subs c of
             None \<Rightarrow> None
           | Some sub \<Rightarrow> if sub_job sub = jid then Some (sub\<lparr>sub_attached := False\<rparr>) else Some sub)"

text \<open>
  Modelled from the spec: submit, sections 2 and 6: the controller allocates a job identity
  and a registry entry in \<^verbatim>\<open>pending\<close> state; identities are unique, so an identity already
  in the registry is not allocated again. The controller is not among the sources.
\<close>

definition submit :: "string \<Rightarrow> service \<Rightarrow> service" where
  "submit jid srv =
     (case registry srv jid of
        Some j \<Rightarrow> srv
      | None \<Rightarrow> srv\<lparr>registry := (registry srv)(jid \<mapsto> new_job)\<rparr>)"

text \<open>
  Modelled from the spec: a parsed progress event, section 2: it updates the registry (the
  job is running from its first progress event on) and is pushed to the broadcaster. A job
  that has ended accepts nothing more (section 4.4). The controller is not among the sources.
\<close>

definition publish :: "string \<Rightarrow> snapshot \<Rightarrow> service \<Rightarrow> service" where
  "publish jid snap srv =
     (case registry srv jid of
        None \<Rightarrow> srv
      | Some j \<Rightarrow>
          if terminal (j_status j) then srv
          else srv\<lparr>registry := (registry srv)
                       (jid \<mapsto> j\<lparr>j_status := transition (j_status j) FirstProgress,
                                   j_progress := snap\<rparr>),
                    subscriptions := deliver jid (ProgressEvent snap) (subscriptions srv),
                    published := (published srv)(jid := published srv jid @ [ProgressEvent snap])\<rparr>)"

text \<open>
  Modelled from the spec: the controller handling a signal for a job, sections 2 and 4.4: the
  status moves as the state machine says; when it reaches a terminal state the registry
  entry is finalized and the broadcaster emits the terminal event to the current subscribers
  and closes the topic; a signal that moves nothing does nothing. The controller is not
  among the sources.
\<close>

definition handle_signal :: "string \<Rightarrow> signal \<Rightarrow> service \<Rightarrow> service" where
  "handle_signal jid sig srv =
     (case registry srv jid of
        None \<Rightarrow> srv
      | Some j \<Rightarrow>
          (let j' = j\<lparr>j_status := transition (j_status j) sig\<rparr>
           in if j_status j' = j_status j then srv
              else if terminal (j_status j') then
                srv\<lparr>registry := (registry srv)(jid \<mapsto> j'),
                     subscriptions := detach jid (deliver jid (TerminalEvent j') (subscriptions srv)),
                     published := (published srv)(jid := published srv jid @ [TerminalEvent j'])\<rparr>
              else srv\<lparr>registry := (registry srv)(jid \<mapsto> j')\<rparr>))"

text \<open>
  Modelled from the spec: subscribe, section 4.3: the new subscriber immediately receives the
  current state built from the registry's latest record and is then attached to the live
  stream; against a job that has ended it receives the single synthetic terminal event and
  the stream ends. An unknown job id is \<^verbatim>\<open>NotFound\<close> (section 7): no subscription. The
  broadcaster is not among the sources.
\<close>

definition subscribe :: "nat \<Rightarrow> string \<Rightarrow> service \<Rightarrow> service" where
  "subscribe c jid srv =
     (case registry srv jid of
        None \<Rightarrow> srv
      | Some j \<Rightarrow>
          srv\<lparr>subscriptions := (subscriptions srv)
                 (c \<mapsto> \<lparr>sub_job = jid, sub_delivered = [snapshot_event j],
                         sub_attached = \<not> terminal (j_status j)\<rparr>)\<rparr>)"

text \<open>
  Modelled from the spec: a client disconnect, section 5: it removes that subscription and
  has no effect on the job or on other subscribers. The broadcaster is not among the sources.
\<close>

definition disconnect :: "nat \<Rightarrow> service \<Rightarrow> service" where
  "disconnect c srv = srv\<lparr>subscriptions := (subscriptions srv)(c := None)\<rparr>"

text \<open>
  Modelled from the spec: cancel, sections 6 and 7: for a job in \<^verbatim>\<open>pending\<close> or \<^verbatim>\<open>running\<close>
  it requests the transition to \<^verbatim>\<open>stopped\<close>; for a job that has ended it is a no-op and
  not an error; an unknown job id is \<^verbatim>\<open>NotFound\<close>. The endpoint is not among the sources.
\<close>

datatype cancel_reply = CancelOk | CancelNotFound

text \<open>
  Modelled from the spec: the cancel operation itself, sections 6 and 7 as above, with the
  stopped transition carried out by the controller of section 4.4. The endpoint is not among
  the sources.
\<close>

definition cancel_job :: "string \<Rightarrow> service \<Rightarrow> cancel_reply \<times> service" where
  "cancel_job jid srv =
     (case registry srv jid of
        None \<Rightarrow> (CancelNotFound, srv)
      | Some j \<Rightarrow> (CancelOk, handle_signal jid CancelAccepted srv))"

text \<open>
  Modelled from the spec: how the reply reaches the client of the sources: a cancel that is
  not an error is an ok response, \<^verbatim>\<open>NotFound\<close> one that is not ok; the spec says nothing of
  the body, which stays a parameter. The endpoint is not among the sources.
\<close>

definition cancel_response :: "cancel_reply \<Rightarrow> json option \<Rightarrow> fetch_result" where
  "cancel_response reply body = Response (reply = CancelOk) body"

text \<open>
  Modelled from the spec: everything that can happen to the service: a submission, a parsed
  progress event, a signal to the controller, a cancel request, a connection subscribing and
  a connection going away (section 5: the mutations of a job's record are serialized, so
  they are taken one at a time). The service is not among the sources.
\<close>

datatype operation =
    Submit string
  | Publish string snapshot
  | Signal string signal
  | Cancel string
  | Subscribe nat string
  | Disconnect nat

text \<open>
  Modelled from the spec: one operation on the service, each as defined above. The service
  is not among the sources.
\<close>

fun step :: "operation \<Rightarrow> service \<Rightarrow> service" where
  "step (Submit jid) srv = submit jid srv"
| "step (Publish jid snap) srv = publish jid snap srv"
| "step (Signal jid sig) srv = handle_signal jid sig srv"
| "step (Cancel jid) srv = snd (cancel_job jid srv)"
| "step (Subscribe c jid) srv = subscribe c jid srv"
| "step (Disconnect c) srv = disconnect c srv"

text \<open>
  Modelled from the spec: operations one after another, section 5. The service is not among
  the sources.
\<close>

fun run :: "operation list \<Rightarrow> service \<Rightarrow> service" where
  "run [] srv = srv"
| "run (x # xs) srv = run xs (step x srv)"

text \<open>Whether an operation is connection \<open>c\<close> subscribing anew or going away.\<close>

fun reconnects :: "nat \<Rightarrow> operation \<Rightarrow> bool" where
  "reconnects c (Subscribe c' jid) = (c' = c)"
| "reconnects c (Disconnect c') = (c' = c)"
| "reconnects c x = False"

text \<open>The messages delivered to connection \<open>c\<close> so far.\<close>

definition delivered_to :: "service \<Rightarrow> nat \<Rightarrow> event list" where
  "delivered_to srv c = (case subscriptions srv c of None \<Rightarrow> [] | Some sub \<Rightarrow> sub_delivered sub)"

text \<open>
  How the statuses the client declares read as statuses of the specification:
  \<^verbatim>\<open>processing\<close> and \<^verbatim>\<open>training\<close> are its \<^verbatim>\<open>running\<close>.
\<close>

fun status_of_generation :: "generation_status \<Rightarrow> job_status" where
  "status_of_generation GenPending = JobPending"
| "status_of_generation GenProcessing = JobRunning"
| "status_of_generation GenCompleted = JobCompleted"
| "status_of_generation GenError = JobError"

fun status_of_training :: "training_status \<Rightarrow> job_status" where
  "status_of_training TrPending = JobPending"
| "status_of_training TrTraining = JobRunning"
| "status_of_training TrCompleted = JobCompleted"
| "status_of_training TrError = JobError"
| "status_of_training TrStopped = JobStopped"


text \<open>
  What the replay theorem keeps true of connection \<open>c\<close> watching job \<open>jid\<close>: its messages
  are \<open>first\<close> and then the events published on the topic from position \<open>n\<close> of the log
  on, and it is attached unless the job has ended.
\<close>

definition replays :: "service \<Rightarrow> nat \<Rightarrow> string \<Rightarrow> event \<Rightarrow> nat \<Rightarrow> bool" where
  "replays srv c jid first n =
     (case subscriptions srv c of
        None \<Rightarrow> False
      | Some sub \<Rightarrow>
          sub_job sub = jid
          \<and> sub_delivered sub = first # drop n (published srv jid)
          \<and> n \<le> length (published srv jid)
          \<and> (sub_attached sub
              \<or> (case registry srv jid of None \<Rightarrow> False | Some j \<Rightarrow> terminal (j_status j))))"


section \<open>Reading aids for the client theorems\<close>

text \<open>The three message types the callback acts on.\<close>

definition recognized :: "json \<Rightarrow> bool" where
  "recognized u =
     (get_prop u ''type'' = Inr (Some (JStr ''progress''))
      \<or> get_prop u ''type'' = Inr (Some (JStr ''complete''))
      \<or> get_prop u ''type'' = Inr (Some (JStr ''error'')))"

text \<open>The number a progress bar draws for a stored value: the number itself.\<close>

fun shown_number :: "json \<Rightarrow> rat" where
  "shown_number (JNum p) = p"
| "shown_number v = 0"

text \<open>A progress message as the server sends it.\<close>

definition progress_message :: "rat \<Rightarrow> string \<Rightarrow> json" where
  "progress_message p label =
     JObj [(''type'', JStr ''progress''), (''progress'', JNum p), (''current_step'', JStr label)]"


section \<open>Theorems\<close>

lemma includes_str_iff: "includes_str s k \<longleftrightarrow> (\<exists>ps ss. s = ps @ k @ ss)"
proof (induction s)
  case Nil
  then show ?case by auto
next
  case (Cons c s)
  show ?case
  proof
    assume "includes_str (c # s) k"
    then consider "prefix k (c # s)" | "includes_str s k" by auto
    then show "\<exists>ps ss. c # s = ps @ k @ ss"
    proof cases
      case 1
      then obtain ss where "c # s = k @ ss" by (auto simp: prefix_def)
      then have "c # s = [] @ k @ ss" by simp
      then show ?thesis by blast
    next
      case 2
      with Cons.IH obtain ps ss where "s = ps @ k @ ss" by blast
      then have "c # s = (c # ps) @ k @ ss" by simp
      then show ?thesis by blast
    qed
  next
    assume "\<exists>ps ss. c # s = ps @ k @ ss"
    then obtain ps ss where eq: "c # s = ps @ k @ ss" by blast
    show "includes_str (c # s) k"
    proof (cases ps)
      case Nil
      with eq have "prefix k (c # s)" by (simp add: prefix_def)
      then show ?thesis by simp
    next
      case (Cons p ps')
      with eq have "s = ps' @ k @ ss" by simp
      with Cons.IH have "includes_str s k" by blast
      then show ?thesis by simp
    qed
  qed
qed

subsection \<open>Frame counts\<close>

lemma clamp_grid:
  fixes r :: int
  shows "9 \<le> max 9 (min 4097 (1 + r * 8)) \<and> max 9 (min 4097 (1 + r * 8)) \<le> 4097
     \<and> (\<exists>k\<ge>1. max 9 (min 4097 (1 + r * 8)) = 1 + 8 * k)"
  by presburger

lemma round_bounds:
  assumes "9 \<le> v" "v \<le> 4097"
  shows "1 \<le> Math_round ((v - 1) / 8)" "Math_round ((v - 1) / 8) \<le> 512"
proof -
  have "1 \<le> (v - 1) / 8" using assms by simp
  then have "1 \<le> (v - 1) / 8 + 1 / 2" by linarith
  then show "1 \<le> Math_round ((v - 1) / 8)"
    unfolding Math_round_def by (simp add: le_floor_iff)
  have "(v - 1) / 8 \<le> 512" using assms by simp
  then have "(v - 1) / 8 + 1 / 2 < 513" by linarith
  then have "\<lfloor>(v - 1) / 8 + 1 / 2\<rfloor> < 513" by (simp add: floor_less_iff)
  then show "Math_round ((v - 1) / 8) \<le> 512"
    unfolding Math_round_def by simp
qed

text \<open>
  Claim C9. Every frame count the parameter panel produces is \<open>1 + 8 * k\<close> for an integer
  \<open>k \<ge> 1\<close> and lies between 9 and 4097: for every position the frames slider can hand over
  (anything between its \<^verbatim>\<open>min\<close> and \<^verbatim>\<open>max\<close>), and for every string typed into the numeric
  input that \<^verbatim>\<open>parseInt\<close> reads as a number. The preset buttons, the third way to set the
  count, keep to the same grid.
\<close>

theorem num_frames_on_grid:
  "(\<forall>v. slider_min \<le> v \<and> v \<le> slider_max \<longrightarrow>
      9 \<le> frames_slider_onValueChange v \<and> frames_slider_onValueChange v \<le> 4097
      \<and> (\<exists>k\<ge>1. frames_slider_onValueChange v = 1 + 8 * k))
   \<and> (\<forall>s n. frames_input_onChange s = Some n \<longrightarrow>
      9 \<le> n \<and> n \<le> 4097 \<and> (\<exists>k\<ge>1. n = 1 + 8 * k))
   \<and> (\<forall>n. n \<in> set framePresets \<longrightarrow>
      9 \<le> n \<and> n \<le> 4097 \<and> (\<exists>k\<ge>1. n = 1 + 8 * k))"
proof (intro conjI allI impI)
  fix v assume v: "slider_min \<le> v \<and> v \<le> slider_max"
  then have b: "1 \<le> Math_round ((v - 1) / 8)" "Math_round ((v - 1) / 8) \<le> 512"
    using round_bounds [of v] by (simp_all add: slider_min_def slider_max_def)
  show "9 \<le> frames_slider_onValueChange v"
    using b by (simp add: frames_slider_onValueChange_def)
  show "frames_slider_onValueChange v \<le> 4097"
    using b by (simp add: frames_slider_onValueChange_def)
  have "frames_slider_onValueChange v = 1 + 8 * Math_round ((v - 1) / 8)"
    by (simp add: frames_slider_onValueChange_def)
  with b(1) show "\<exists>k\<ge>1. frames_slider_onValueChange v = 1 + 8 * k" by blast
next
  fix s n assume "frames_input_onChange s = Some n"
  then obtain r :: int where n: "n = max 9 (min 4097 (1 + r * 8))"
    by (auto simp: frames_input_onChange_def Let_def split: option.splits)
  show "9 \<le> n" using clamp_grid [of r] n by simp
  show "n \<le> 4097" using clamp_grid [of r] n by simp
  show "\<exists>k\<ge>1. n = 1 + 8 * k" using clamp_grid [of r] n by simp
next
  fix n :: int assume "n \<in> set framePresets"
  then have n: "n = 17 \<or> n = 33 \<or> n = 65 \<or> n = 241 \<or> n = 721 \<or> n = 1441 \<or> n = 2881 \<or> n = 4097"
    by (simp add: framePresets_def)
  show "9 \<le> n" using n by presburger
  show "n \<le> 4097" using n by presburger
  show "\<exists>k\<ge>1. n = 1 + 8 * k" using n by presburger
qed

theorem num_frames_on_grid_witness:
  "slider_min \<le> 41 \<and> 41 \<le> slider_max \<and> frames_slider_onValueChange 41 = 41
   \<and> (\<exists>k\<ge>1. frames_slider_onValueChange 41 = 1 + 8 * k)
   \<and> frames_input_onChange ''100'' = Some 97 \<and> (\<exists>k\<ge>1. (97::int) = 1 + 8 * k)
   \<and> 241 \<in> set framePresets \<and> (\<exists>k\<ge>1. (241::int) = 1 + 8 * k)"
proof -
  have r: "slider_min \<le> 41 \<and> 41 \<le> slider_max" by (simp add: slider_min_def slider_max_def)
  have i: "frames_input_onChange ''100'' = Some 97" by code_simp
  have v: "frames_slider_onValueChange 41 = 41" by code_simp
  from num_frames_on_grid r have "\<exists>k\<ge>1. frames_slider_onValueChange 41 = 1 + 8 * k" by blast
  moreover from num_frames_on_grid i have "\<exists>k\<ge>1. (97::int) = 1 + 8 * k" by blast
  moreover have p: "241 \<in> set framePresets" by (simp add: framePresets_def)
  moreover from num_frames_on_grid p have "\<exists>k\<ge>1. (241::int) = 1 + 8 * k" by blast
  ultimately show ?thesis using r i v by blast
qed

subsection \<open>The current step of the progress indicator\<close>

lemma mentions_iff:
  "mentions line i \<longleftrightarrow>
     (i = 3 \<and> (includes_str (toLowerCase line) ''saving'' \<or> includes_str (toLowerCase line) ''finaliz''
        \<or> includes_str (toLowerCase line) ''mux''))
   \<or> (i = 2 \<and> (includes_str (toLowerCase line) ''decod''
        \<or> includes_str (toLowerCase line) ''streaming frames''))
   \<or> (i = 1 \<and> (includes_str (toLowerCase line) ''denois'' \<or> includes_str (toLowerCase line) ''stage 1''
        \<or> includes_str (toLowerCase line) ''stage 2''))
   \<or> (i = 0 \<and> (includes_str (toLowerCase line) ''load'' \<or> includes_str (toLowerCase line) ''encod''))"
  unfolding mentions_def step_markers_def by (simp only: list_ex_Cons_iff list_ex_Nil_iff case_prod_conv) blast

lemma mentions_le:
  "mentions line i \<Longrightarrow> i \<le> getCurrentStepIndex (Some line) pct"
  unfolding mentions_iff getCurrentStepIndex_def Let_def option.case by (elim disjE conjE) simp_all

lemma mentions_result:
  "mentions line i \<Longrightarrow> mentions line (getCurrentStepIndex (Some line) pct)"
  unfolding mentions_iff [of line i] getCurrentStepIndex_def Let_def option.case
  by (elim disjE conjE) (simp_all add: mentions_iff)

text \<open>
  The step is computed from the label of the latest message alone. A message labelled
  \<^verbatim>\<open>Decoding latents\<close> followed by one labelled \<^verbatim>\<open>Denoising step 3\<close>, as a worker whose log
  lines arrive out of order produces them, shows step 2 and then step 1.
\<close>

theorem later_line_moves_step_back:
  "map currentStep
     (feed None () [progress_message 50 ''Decoding latents'', progress_message 50 ''Denoising step 3'']
        initial_generator_state)
     = [JStr ''Decoding latents'', JStr ''Denoising step 3'']
   \<and> getCurrentStepIndex (Some ''Decoding latents'') 50 = 2
   \<and> getCurrentStepIndex (Some ''Denoising step 3'') 50 = 1"
  by code_simp

text \<open>
  Claim C4, amended. The step shown for a status line is inferred from the markers that
  line contains, and from that line alone. When the line contains markers of two steps, the
  more advanced one is chosen: the result is at least both, and it is itself a step the line
  mentions, so it is the most advanced step mentioned, wherever the markers stand in the
  line. No step is remembered between lines: a progress message replaces the label by its
  own, whatever the label was before, so the step shown next is the step of the new line.
\<close>

theorem step_index_of_current_line:
  "(mentions line i \<and> mentions line j \<longrightarrow>
      max i j \<le> getCurrentStepIndex (Some line) pct
      \<and> mentions line (getCurrentStepIndex (Some line) pct))
   \<and> (get_prop u ''type'' = Inr (Some (JStr ''progress''))
        \<and> field_of u ''current_step'' = Some (JStr line) \<and> line \<noteq> [] \<longrightarrow>
      currentStep (snd (onMessage job_id params u s)) = JStr line)"
proof (intro impI conjI)
  assume a: "mentions line i \<and> mentions line j"
  show "max i j \<le> getCurrentStepIndex (Some line) pct"
    using a mentions_le [of line i pct] mentions_le [of line j pct] by simp
  show "mentions line (getCurrentStepIndex (Some line) pct)"
    using a mentions_result by blast
next
  assume "get_prop u ''type'' = Inr (Some (JStr ''progress''))
      \<and> field_of u ''current_step'' = Some (JStr line) \<and> line \<noteq> []"
  then show "currentStep (snd (onMessage job_id params u s)) = JStr line"
    by (simp add: onMessage_def)
qed

theorem step_index_of_current_line_witness:
  "mentions ''Denoising done, decoding'' 1 \<and> mentions ''Denoising done, decoding'' 2
   \<and> getCurrentStepIndex (Some ''Denoising done, decoding'') 20 = 2
   \<and> getCurrentStepIndex (Some ''Decoding... denoising'') 20 = 2
   \<and> max (1::nat) 2 \<le> getCurrentStepIndex (Some ''Denoising done, decoding'') 20
   \<and> get_prop (progress_message 20 ''Denoising done, decoding'') ''type''
       = Inr (Some (JStr ''progress''))
   \<and> field_of (progress_message 20 ''Denoising done, decoding'') ''current_step''
       = Some (JStr ''Denoising done, decoding'')
   \<and> currentStep (snd (onMessage None () (progress_message 20 ''Denoising done, decoding'')
        (initial_generator_state\<lparr>currentStep := JStr ''Saving video''\<rparr>)))
       = JStr ''Denoising done, decoding''"
proof -
  let ?line = "''Denoising done, decoding''"
  let ?u = "progress_message 20 ?line"
  let ?s = "(initial_generator_state :: unit generator_state)\<lparr>currentStep := JStr ''Saving video''\<rparr>"
  have m: "mentions ?line 1 \<and> mentions ?line 2" by code_simp
  have e: "getCurrentStepIndex (Some ?line) 20 = 2" by code_simp
  have e': "getCurrentStepIndex (Some ''Decoding... denoising'') 20 = 2" by code_simp
  have t: "get_prop ?u ''type'' = Inr (Some (JStr ''progress''))"
    by (simp add: progress_message_def)
  have f: "field_of ?u ''current_step'' = Some (JStr ?line)"
    by (simp add: progress_message_def field_of_def)
  have n: "?line \<noteq> []" by simp
  note th = step_index_of_current_line [of ?line 1 2 20 ?u None "()" ?s]
  have g: "max (1::nat) 2 \<le> getCurrentStepIndex (Some ?line) 20"
    using th [THEN conjunct1, THEN mp, OF m] by (rule conjunct1)
  have h: "currentStep (snd (onMessage None () ?u ?s)) = JStr ?line"
    using th [THEN conjunct2, THEN mp, OF conjI [OF t conjI [OF f n]]] .
  show ?thesis
    by (intro conjI m [THEN conjunct1] m [THEN conjunct2] e e' g t f h)
qed

subsection \<open>Messages on the socket\<close>

lemma onMessage_unrecognized:
  "\<not> recognized u \<Longrightarrow> snd (onMessage job_id params u s) = s"
  by (cases "get_prop u ''type''") (auto simp: onMessage_def recognized_def)

lemma try_catch_log_fst: "fst (try_catch_log body s) = None"
  by (simp add: try_catch_log_def split: prod.splits option.splits)

lemma try_catch_log_snd: "snd (try_catch_log body s) = snd (body s)"
  by (simp add: try_catch_log_def split: prod.splits option.splits)

lemma ws_onmessage_snd:
  "snd (ws_onmessage JSON_parse cb data s) =
     (case JSON_parse data of None \<Rightarrow> s | Some u \<Rightarrow> snd (cb u s))"
  by (simp add: ws_onmessage_def try_catch_log_snd split: option.splits)

lemma ws_onmessage_progress_label:
  "JSON_parse data = Some u \<Longrightarrow> get_prop u ''type'' = Inr (Some (JStr ''progress'')) \<Longrightarrow>
     currentStep (snd (ws_onmessage JSON_parse (onMessage job_id params) data s))
       = or_else (field_of u ''current_step'') (JStr ''Processing...'')"
  by (simp add: ws_onmessage_snd onMessage_def)

lemma stepText_string: "stepText (JStr l) = Inr (toLowerCase l)"
  by (simp add: stepText_def)

lemma stepText_other: "truthy (Some v) \<Longrightarrow> \<forall>l. v \<noteq> JStr l \<Longrightarrow> stepText v = Inl TypeError"
  by (cases v) (simp_all add: stepText_def)

text \<open>
  A progress message whose label is the number 7 is one of the recognized types: the
  handler stores the 7 as the current step, and the render that follows throws where it
  lower-cases the label.
\<close>

theorem numeric_label_breaks_render:
  "recognized (JObj [(''type'', JStr ''progress''), (''current_step'', JNum 7)])
   \<and> ws_onmessage (\<lambda>d. Some (JObj [(''type'', JStr ''progress''), (''current_step'', JNum 7)]))
        (onMessage None ()) ''message'' initial_generator_state
      = (None, initial_generator_state\<lparr>status := StProcessing, progress := JNum 0, currentStep := JNum 7\<rparr>)
   \<and> stepText (currentStep (snd (ws_onmessage
        (\<lambda>d. Some (JObj [(''type'', JStr ''progress''), (''current_step'', JNum 7)]))
        (onMessage None ()) ''message'' initial_generator_state)))
      = Inl TypeError"
  by code_simp

text \<open>
  Claim C7, amended. For every streamed message the socket's message handler ends normally,
  whatever the parser makes of the message. A message that does not parse, and a parsed
  message that is none of the three types the callback acts on (the JSON \<^verbatim>\<open>null\<close> included,
  whose property read throws inside the \<^verbatim>\<open>try\<close>), leaves the component's state as it was.
  A message of a recognized type is stored as it came, the types of its fields unchecked:
  after a progress message whose label is a string or absent the indicator lower-cases the
  label without error, and after one whose label is truthy and not a string that call
  throws a \<^verbatim>\<open>TypeError\<close> during the render.
\<close>

theorem onmessage_never_throws:
  "fst (ws_onmessage JSON_parse (onMessage job_id params) data s) = None
   \<and> (JSON_parse data = None \<longrightarrow>
        snd (ws_onmessage JSON_parse (onMessage job_id params) data s) = s)
   \<and> (\<forall>u. JSON_parse data = Some u \<and> \<not> recognized u \<longrightarrow>
        snd (ws_onmessage JSON_parse (onMessage job_id params) data s) = s)
   \<and> (\<forall>u. JSON_parse data = Some u \<and> get_prop u ''type'' = Inr (Some (JStr ''progress''))
          \<and> (field_of u ''current_step'' = None \<or> (\<exists>l. field_of u ''current_step'' = Some (JStr l))) \<longrightarrow>
        (\<exists>t. stepText (currentStep (snd (ws_onmessage JSON_parse (onMessage job_id params) data s)))
            = Inr t))
   \<and> (\<forall>u v. JSON_parse data = Some u \<and> get_prop u ''type'' = Inr (Some (JStr ''progress''))
          \<and> field_of u ''current_step'' = Some v \<and> truthy (Some v) \<and> (\<forall>l. v \<noteq> JStr l) \<longrightarrow>
        stepText (currentStep (snd (ws_onmessage JSON_parse (onMessage job_id params) data s)))
          = Inl TypeError)"
proof (intro conjI impI allI)
  show "fst (ws_onmessage JSON_parse (onMessage job_id params) data s) = None"
    by (simp add: ws_onmessage_def try_catch_log_fst)
next
  assume "JSON_parse data = None"
  then show "snd (ws_onmessage JSON_parse (onMessage job_id params) data s) = s"
    by (simp add: ws_onmessage_snd)
next
  fix u assume "JSON_parse data = Some u \<and> \<not> recognized u"
  then show "snd (ws_onmessage JSON_parse (onMessage job_id params) data s) = s"
    by (simp add: ws_onmessage_snd onMessage_unrecognized)
next
  fix u
  assume a: "JSON_parse data = Some u \<and> get_prop u ''type'' = Inr (Some (JStr ''progress''))
      \<and> (field_of u ''current_step'' = None \<or> (\<exists>l. field_of u ''current_step'' = Some (JStr l)))"
  then have lab: "currentStep (snd (ws_onmessage JSON_parse (onMessage job_id params) data s))
      = or_else (field_of u ''current_step'') (JStr ''Processing...'')"
    by (simp add: ws_onmessage_progress_label)
  from a have "\<exists>l. or_else (field_of u ''current_step'') (JStr ''Processing...'') = JStr l"
    by auto
  then obtain l where "or_else (field_of u ''current_step'') (JStr ''Processing...'') = JStr l"
    by blast
  with lab show "\<exists>t. stepText (currentStep (snd (ws_onmessage JSON_parse (onMessage job_id params) data s)))
      = Inr t"
    by (simp add: stepText_string)
next
  fix u v
  assume a: "JSON_parse data = Some u \<and> get_prop u ''type'' = Inr (Some (JStr ''progress''))
      \<and> field_of u ''current_step'' = Some v \<and> truthy (Some v) \<and> (\<forall>l. v \<noteq> JStr l)"
  then have "currentStep (snd (ws_onmessage JSON_parse (onMessage job_id params) data s)) = v"
    by (simp add: ws_onmessage_progress_label)
  with a show "stepText (currentStep (snd (ws_onmessage JSON_parse (onMessage job_id params) data s)))
      = Inl TypeError"
    by (simp add: stepText_other)
qed

theorem onmessage_never_throws_witness:
  "(\<lambda>d. if d = ''null'' then Some JNull
         else if d = ''tick'' then Some (progress_message 20 ''Denoising'') else None) ''garbage'' = None
   \<and> (\<lambda>d. if d = ''null'' then Some JNull
         else if d = ''tick'' then Some (progress_message 20 ''Denoising'') else None) ''null'' = Some JNull
   \<and> \<not> recognized JNull
   \<and> fst (onMessage None () JNull (initial_generator_state :: unit generator_state)) = Some TypeError
   \<and> ws_onmessage (\<lambda>d. if d = ''null'' then Some JNull
         else if d = ''tick'' then Some (progress_message 20 ''Denoising'') else None)
        (onMessage None ()) ''null''
        (initial_generator_state :: unit generator_state) = (None, initial_generator_state)
   \<and> ws_onmessage (\<lambda>d. if d = ''null'' then Some JNull
         else if d = ''tick'' then Some (progress_message 20 ''Denoising'') else None)
        (onMessage None ()) ''garbage''
        (initial_generator_state :: unit generator_state) = (None, initial_generator_state)
   \<and> field_of (progress_message 20 ''Denoising'') ''current_step'' = Some (JStr ''Denoising'')
   \<and> (\<exists>t. stepText (currentStep (snd (ws_onmessage (\<lambda>d. if d = ''null'' then Some JNull
         else if d = ''tick'' then Some (progress_message 20 ''Denoising'') else None)
        (onMessage None ()) ''tick'' (initial_generator_state :: unit generator_state)))) = Inr t)"
proof -
  let ?parse = "\<lambda>d. if d = ''null'' then Some JNull
         else if d = ''tick'' then Some (progress_message 20 ''Denoising'') else None"
  let ?s = "initial_generator_state :: unit generator_state"
  let ?u = "progress_message 20 ''Denoising''"
  have a: "?parse ''garbage'' = None" by simp
  have b: "?parse ''null'' = Some JNull" by simp
  have b': "?parse ''tick'' = Some ?u" by simp
  have c: "\<not> recognized JNull" by (simp add: recognized_def)
  have d: "fst (onMessage None () JNull ?s) = Some TypeError" by (simp add: onMessage_def)
  have ty: "get_prop ?u ''type'' = Inr (Some (JStr ''progress''))" by (simp add: progress_message_def)
  have lb: "field_of ?u ''current_step'' = Some (JStr ''Denoising'')"
    by (simp add: progress_message_def field_of_def)
  note t1 = onmessage_never_throws [of ?parse None "()" "''null''" ?s]
  note t2 = onmessage_never_throws [of ?parse None "()" "''garbage''" ?s]
  note t3 = onmessage_never_throws [of ?parse None "()" "''tick''" ?s]
  have e1: "snd (ws_onmessage ?parse (onMessage None ()) ''null'' ?s) = ?s"
    using t1 [THEN conjunct2, THEN conjunct2, THEN conjunct1, THEN spec, of JNull,
        THEN mp, OF conjI [OF b c]] .
  have e: "ws_onmessage ?parse (onMessage None ()) ''null'' ?s = (None, ?s)"
    by (rule prod_eqI) (simp_all only: fst_conv snd_conv t1 [THEN conjunct1] e1)
  have f1: "snd (ws_onmessage ?parse (onMessage None ()) ''garbage'' ?s) = ?s"
    using t2 [THEN conjunct2, THEN conjunct1, THEN mp, OF a] .
  have f: "ws_onmessage ?parse (onMessage None ()) ''garbage'' ?s = (None, ?s)"
    by (rule prod_eqI) (simp_all only: fst_conv snd_conv t2 [THEN conjunct1] f1)
  have lb': "field_of ?u ''current_step'' = None \<or> (\<exists>l. field_of ?u ''current_step'' = Some (JStr l))"
    using lb by blast
  have g: "\<exists>t. stepText (currentStep (snd (ws_onmessage ?parse (onMessage None ()) ''tick'' ?s))) = Inr t"
    using t3 [THEN conjunct2, THEN conjunct2, THEN conjunct2, THEN conjunct1, THEN spec, of ?u,
        THEN mp, OF conjI [OF b' conjI [OF ty lb']]] .
  show ?thesis by (intro conjI a b c d e f lb g)
qed

subsection \<open>Submitting\<close>

lemma get_prop_field_of: "data \<noteq> JNull \<Longrightarrow> get_prop data k = Inr (field_of data k)"
  by (cases data) (simp_all add: field_of_def)

lemma or_else_falsy: "\<not> truthy v \<Longrightarrow> or_else v d = d"
  by (cases v) simp_all





subsection \<open>Listing\<close>

text \<open>
  The listing operations do throw on one kind of successful response: a body that is the
  JSON \<^verbatim>\<open>null\<close> lacks the expected array, and reading the field on it is a \<^verbatim>\<open>TypeError\<close>.
\<close>

theorem listing_null_body_throws:
  "listVideos (Response True (Some JNull)) = Inl TypeError
   \<and> listCheckpoints (Response True (Some JNull)) = Inl TypeError
   \<and> listLoras (Response True (Some JNull)) = Inl TypeError
   \<and> listVideos (Response True (Some JNull)) \<noteq> Inr (JArr [])"
  by (simp add: listVideos_def listCheckpoints_def listLoras_def response_json_def)

text \<open>
  Claim C10, amended. For every response that is not ok, \<^verbatim>\<open>listVideos\<close>,
  \<^verbatim>\<open>listCheckpoints\<close> and \<^verbatim>\<open>listLoras\<close> return the empty list, whatever the body. For an ok
  response whose body is a JSON value other than \<^verbatim>\<open>null\<close> in which the expected field is
  absent or falsy, they return the empty list as well; an ok response whose body is not JSON
  makes them throw. \<^verbatim>\<open>deleteVideo\<close> throws on every response that is not ok.
\<close>

theorem listing_failure_is_empty:
  "listVideos (Response False body) = Inr (JArr [])
   \<and> listCheckpoints (Response False body) = Inr (JArr [])
   \<and> listLoras (Response False body) = Inr (JArr [])
   \<and> (data \<noteq> JNull \<and> \<not> truthy (field_of data ''videos'') \<longrightarrow>
        listVideos (Response True (Some data)) = Inr (JArr []))
   \<and> (data \<noteq> JNull \<and> \<not> truthy (field_of data ''checkpoints'') \<longrightarrow>
        listCheckpoints (Response True (Some data)) = Inr (JArr []))
   \<and> (data \<noteq> JNull \<and> \<not> truthy (field_of data ''loras'') \<longrightarrow>
        listLoras (Response True (Some data)) = Inr (JArr []))
   \<and> listVideos (Response True None) = Inl SyntaxError
   \<and> listCheckpoints (Response True None) = Inl SyntaxError
   \<and> listLoras (Response True None) = Inl SyntaxError
   \<and> (\<exists>e. deleteVideo num_text (Response False body) = Inl e)"
  by (simp add: listVideos_def listCheckpoints_def listLoras_def deleteVideo_def response_json_def
      get_prop_field_of or_else_falsy)

theorem listing_failure_is_empty_witness:
  "JObj [(''items'', JArr [])] \<noteq> JNull
   \<and> \<not> truthy (field_of (JObj [(''items'', JArr [])]) ''videos'')
   \<and> \<not> truthy (field_of (JObj [(''items'', JArr [])]) ''checkpoints'')
   \<and> \<not> truthy (field_of (JObj [(''items'', JArr [])]) ''loras'')
   \<and> listVideos (Response True (Some (JObj [(''items'', JArr [])]))) = Inr (JArr [])
   \<and> listCheckpoints (Response True (Some (JObj [(''items'', JArr [])]))) = Inr (JArr [])
   \<and> listLoras (Response True (Some (JObj [(''items'', JArr [])]))) = Inr (JArr [])
   \<and> listVideos (Response False None) = Inr (JArr [])"
proof -
  let ?data = "JObj [(''items'', JArr [])]"
  have a: "?data \<noteq> JNull" by simp
  have b: "\<not> truthy (field_of ?data ''videos'')" "\<not> truthy (field_of ?data ''checkpoints'')"
    "\<not> truthy (field_of ?data ''loras'')" by (simp_all add: field_of_def)
  from listing_failure_is_empty [of None ?data] a b show ?thesis by blast
qed

subsection \<open>What the progress bar shows\<close>

lemma onMessage_progress:
  "get_prop u ''type'' = Inr (Some (JStr ''progress'')) \<Longrightarrow>
     onMessage job_id params u s =
       (None, s\<lparr>status := StProcessing,
                 progress := or_else (field_of u ''progress'') (JNum 0),
                 currentStep := or_else (field_of u ''current_step'') (JStr ''Processing...'')\<rparr>)"
  by (simp add: onMessage_def)

lemma onMessage_complete:
  "get_prop u ''type'' = Inr (Some (JStr ''complete'')) \<Longrightarrow>
     status (snd (onMessage job_id params u s)) = StCompleted
     \<and> progress (snd (onMessage job_id params u s)) = JNum 100"
  by (simp add: onMessage_def)

lemma onMessage_error:
  "get_prop u ''type'' = Inr (Some (JStr ''error'')) \<Longrightarrow>
     status (snd (onMessage job_id params u s)) = StError"
  by (simp add: onMessage_def)

lemma feed_progress:
  "\<forall>u\<in>set us. get_prop u ''type'' = Inr (Some (JStr ''progress'')) \<Longrightarrow>
     map progress (feed job_id params us s) = map (\<lambda>u. or_else (field_of u ''progress'') (JNum 0)) us"
proof (induction us arbitrary: s)
  case Nil
  then show ?case by simp
next
  case (Cons u us)
  then have u: "get_prop u ''type'' = Inr (Some (JStr ''progress''))" by simp
  from Cons have "map progress (feed job_id params us (snd (onMessage job_id params u s)))
      = map (\<lambda>u. or_else (field_of u ''progress'') (JNum 0)) us" by simp
  then show ?case by (simp add: Let_def onMessage_progress [OF u])
qed

lemma or_else_number: "or_else (Some (JNum p)) (JNum 0) = JNum p"
  by simp

text \<open>
  Claim C1, amended. The message callback shows the progress value of each progress message
  as it came (0 when the field is absent or falsy) and orders nothing itself: when the
  values received are numbers that never decrease, the values shown are those numbers and
  never decrease. A \<^verbatim>\<open>complete\<close> message sets the status to completed together with
  progress 100.
\<close>

theorem displayed_progress_follows_stream:
  "((\<forall>u\<in>set us. get_prop u ''type'' = Inr (Some (JStr ''progress''))) \<longrightarrow>
      map progress (feed job_id params us s)
        = map (\<lambda>u. or_else (field_of u ''progress'') (JNum 0)) us)
   \<and> ((\<forall>u\<in>set us. get_prop u ''type'' = Inr (Some (JStr ''progress'')))
        \<and> map (\<lambda>u. field_of u ''progress'') us = map (\<lambda>p. Some (JNum p)) ps \<and> sorted ps \<longrightarrow>
      map (\<lambda>t. shown_number (progress t)) (feed job_id params us s) = ps
      \<and> sorted (map (\<lambda>t. shown_number (progress t)) (feed job_id params us s)))
   \<and> (get_prop u ''type'' = Inr (Some (JStr ''complete'')) \<longrightarrow>
      status (snd (onMessage job_id params u s)) = StCompleted
      \<and> progress (snd (onMessage job_id params u s)) = JNum 100)"
proof (intro conjI impI)
  assume "\<forall>u\<in>set us. get_prop u ''type'' = Inr (Some (JStr ''progress''))"
  then show "map progress (feed job_id params us s)
      = map (\<lambda>u. or_else (field_of u ''progress'') (JNum 0)) us"
    by (rule feed_progress)
next
  assume a: "(\<forall>u\<in>set us. get_prop u ''type'' = Inr (Some (JStr ''progress'')))
      \<and> map (\<lambda>u. field_of u ''progress'') us = map (\<lambda>p. Some (JNum p)) ps \<and> sorted ps"
  from a have a1: "\<forall>u\<in>set us. get_prop u ''type'' = Inr (Some (JStr ''progress''))"
    by (rule conjunct1)
  from a have a2: "map (\<lambda>u. field_of u ''progress'') us = map (\<lambda>p. Some (JNum p)) ps"
    by (elim conjE)
  from a have a3: "sorted ps" by (elim conjE)
  have "map progress (feed job_id params us s)
      = map (\<lambda>u. or_else (field_of u ''progress'') (JNum 0)) us"
    using a1 by (rule feed_progress)
  also have "\<dots> = map (\<lambda>v. or_else v (JNum 0)) (map (\<lambda>u. field_of u ''progress'') us)"
    by (simp only: map_map comp_def)
  also have "\<dots> = map (\<lambda>v. or_else v (JNum 0)) (map (\<lambda>p. Some (JNum p)) ps)"
    by (simp only: a2)
  also have "\<dots> = map JNum ps"
    by (simp only: map_map comp_def or_else_number)
  finally have "map progress (feed job_id params us s) = map JNum ps" .
  then have "map shown_number (map progress (feed job_id params us s)) = map shown_number (map JNum ps)"
    by (rule arg_cong)
  then show e: "map (\<lambda>t. shown_number (progress t)) (feed job_id params us s) = ps"
    by (simp only: map_map comp_def shown_number.simps map_ident)
  show "sorted (map (\<lambda>t. shown_number (progress t)) (feed job_id params us s))"
    by (simp only: e a3)
next
  assume c: "get_prop u ''type'' = Inr (Some (JStr ''complete''))"
  show "status (snd (onMessage job_id params u s)) = StCompleted"
    using onMessage_complete [OF c] by (rule conjunct1)
  show "progress (snd (onMessage job_id params u s)) = JNum 100"
    using onMessage_complete [OF c] by (rule conjunct2)
qed

theorem displayed_progress_follows_stream_witness:
  "get_prop (progress_message 20 ''Denoising'') ''type'' = Inr (Some (JStr ''progress''))
   \<and> get_prop (progress_message 60 ''Denoising'') ''type'' = Inr (Some (JStr ''progress''))
   \<and> map (\<lambda>u. field_of u ''progress'') [progress_message 20 ''Denoising'', progress_message 60 ''Denoising'']
       = map (\<lambda>p. Some (JNum p)) [20, 60]
   \<and> sorted [20, 60 :: rat]
   \<and> map (\<lambda>t. shown_number (progress t))
        (feed None () [progress_message 20 ''Denoising'', progress_message 60 ''Denoising'']
           initial_generator_state) = [20, 60]
   \<and> get_prop (JObj [(''type'', JStr ''complete'')]) ''type'' = Inr (Some (JStr ''complete''))
   \<and> status (snd (onMessage None () (JObj [(''type'', JStr ''complete'')]) initial_generator_state))
       = StCompleted
   \<and> progress (snd (onMessage None () (JObj [(''type'', JStr ''complete'')]) initial_generator_state))
       = JNum 100"
proof -
  let ?us = "[progress_message 20 ''Denoising'', progress_message 60 ''Denoising'']"
  let ?c = "JObj [(''type'', JStr ''complete'')]"
  have a: "\<forall>u\<in>set ?us. get_prop u ''type'' = Inr (Some (JStr ''progress''))"
    by (simp add: progress_message_def)
  have b: "map (\<lambda>u. field_of u ''progress'') ?us = map (\<lambda>p. Some (JNum p)) [20, 60]"
    by (simp add: progress_message_def field_of_def)
  have c: "sorted [20, 60 :: rat]" by simp
  have d: "get_prop ?c ''type'' = Inr (Some (JStr ''complete''))" by simp
  note t = displayed_progress_follows_stream
    [of ?us None "()" "initial_generator_state" "[20, 60]" ?c]
  have e: "map (\<lambda>t. shown_number (progress t)) (feed None () ?us initial_generator_state) = [20, 60]"
    using t [THEN conjunct2, THEN conjunct1, THEN mp, OF conjI [OF a conjI [OF b c]]]
    by (rule conjunct1)
  have f: "status (snd (onMessage None () ?c initial_generator_state)) = StCompleted
      \<and> progress (snd (onMessage None () ?c initial_generator_state)) = JNum 100"
    using t [THEN conjunct2, THEN conjunct2, THEN mp, OF d] .
  have a1: "get_prop (progress_message 20 ''Denoising'') ''type'' = Inr (Some (JStr ''progress''))"
    and a2: "get_prop (progress_message 60 ''Denoising'') ''type'' = Inr (Some (JStr ''progress''))"
    using a by simp_all
  show ?thesis
    by (intro conjI a1 a2 b c d e f [THEN conjunct1] f [THEN conjunct2])
qed

text \<open>
  The callback stores what it receives: two progress messages of one step, 50 and then 30,
  are shown as 50 and then 30.
\<close>

theorem displayed_progress_can_decrease:
  "map progress (feed None () [progress_message 50 ''Denoising'', progress_message 30 ''Denoising'']
       initial_generator_state) = [JNum 50, JNum 30]
   \<and> map currentStep (feed None () [progress_message 50 ''Denoising'', progress_message 30 ''Denoising'']
       initial_generator_state) = [JStr ''Denoising'', JStr ''Denoising'']
   \<and> getCurrentStepIndex (Some ''Denoising'') 50 = 1
   \<and> getCurrentStepIndex (Some ''Denoising'') 30 = 1
   \<and> (30 :: rat) < 50"
  by code_simp

subsection \<open>How a connection can end\<close>

lemma socket_event_snd_message:
  "snd (socket_event JSON_parse job_id params (Message data) s) =
     (case JSON_parse data of None \<Rightarrow> s | Some u \<Rightarrow> snd (onMessage job_id params u s))"
  by (simp add: socket_event_def ws_onmessage_def try_catch_log_def split: option.splits prod.splits)

text \<open>
  Claim C6, amended. A terminal message on the socket puts the component into the matching
  terminal status (completed or error). A transport error records the text
  \<^verbatim>\<open>Connection lost\<close> and leaves the status as it was. A plain close changes nothing.
\<close>

theorem socket_end_outcomes:
  "(JSON_parse data = Some u \<and> get_prop u ''type'' = Inr (Some (JStr ''complete'')) \<longrightarrow>
      status (snd (socket_event JSON_parse job_id params (Message data) s)) = StCompleted)
   \<and> (JSON_parse data = Some u \<and> get_prop u ''type'' = Inr (Some (JStr ''error'')) \<longrightarrow>
      status (snd (socket_event JSON_parse job_id params (Message data) s)) = StError)
   \<and> socket_event JSON_parse job_id params TransportError s
       = (None, s\<lparr>error := ErrValue (JStr ''Connection lost'')\<rparr>)
   \<and> socket_event JSON_parse job_id params Closed s = (None, s)"
proof (intro conjI impI)
  assume "JSON_parse data = Some u \<and> get_prop u ''type'' = Inr (Some (JStr ''complete''))"
  then show "status (snd (socket_event JSON_parse job_id params (Message data) s)) = StCompleted"
    by (simp add: socket_event_snd_message onMessage_complete)
next
  assume "JSON_parse data = Some u \<and> get_prop u ''type'' = Inr (Some (JStr ''error''))"
  then show "status (snd (socket_event JSON_parse job_id params (Message data) s)) = StError"
    by (simp add: socket_event_snd_message onMessage_error)
next
  show "socket_event JSON_parse job_id params TransportError s
      = (None, s\<lparr>error := ErrValue (JStr ''Connection lost'')\<rparr>)"
    by (simp add: socket_event_def ws_onerror_def onError_def)
  show "socket_event JSON_parse job_id params Closed s = (None, s)"
    by (simp add: socket_event_def ws_onclose_def onClose_def)
qed

theorem socket_end_outcomes_witness:
  "(\<lambda>d. if d = ''done'' then Some (JObj [(''type'', JStr ''complete'')])
         else if d = ''failed'' then Some (JObj [(''type'', JStr ''error'')]) else None) ''done''
      = Some (JObj [(''type'', JStr ''complete'')])
   \<and> get_prop (JObj [(''type'', JStr ''complete'')]) ''type'' = Inr (Some (JStr ''complete''))
   \<and> status (snd (socket_event
        (\<lambda>d. if d = ''done'' then Some (JObj [(''type'', JStr ''complete'')])
              else if d = ''failed'' then Some (JObj [(''type'', JStr ''error'')]) else None)
        None () (Message ''done'') initial_generator_state)) = StCompleted
   \<and> (\<lambda>d. if d = ''done'' then Some (JObj [(''type'', JStr ''complete'')])
         else if d = ''failed'' then Some (JObj [(''type'', JStr ''error'')]) else None) ''failed''
      = Some (JObj [(''type'', JStr ''error'')])
   \<and> get_prop (JObj [(''type'', JStr ''error'')]) ''type'' = Inr (Some (JStr ''error''))
   \<and> status (snd (socket_event
        (\<lambda>d. if d = ''done'' then Some (JObj [(''type'', JStr ''complete'')])
              else if d = ''failed'' then Some (JObj [(''type'', JStr ''error'')]) else None)
        None () (Message ''failed'') initial_generator_state)) = StError"
proof -
  let ?parse = "\<lambda>d. if d = ''done'' then Some (JObj [(''type'', JStr ''complete'')])
         else if d = ''failed'' then Some (JObj [(''type'', JStr ''error'')]) else None"
  let ?s = "initial_generator_state :: unit generator_state"
  have a: "?parse ''done'' = Some (JObj [(''type'', JStr ''complete'')])" by simp
  have b: "get_prop (JObj [(''type'', JStr ''complete'')]) ''type'' = Inr (Some (JStr ''complete''))"
    by simp
  have c: "?parse ''failed'' = Some (JObj [(''type'', JStr ''error'')])" by simp
  have d: "get_prop (JObj [(''type'', JStr ''error'')]) ''type'' = Inr (Some (JStr ''error''))"
    by simp
  from socket_end_outcomes [of ?parse "''done''" "JObj [(''type'', JStr ''complete'')]" None "()" ?s] a b
  have e: "status (snd (socket_event ?parse None () (Message ''done'') ?s)) = StCompleted"
    by blast
  from socket_end_outcomes [of ?parse "''failed''" "JObj [(''type'', JStr ''error'')]" None "()" ?s] c d
  have f: "status (snd (socket_event ?parse None () (Message ''failed'') ?s)) = StError"
    by blast
  from a b c d e f show ?thesis by blast
qed

text \<open>
  After an accepted submission the component is pending. When the socket then closes, with
  or without a transport error before, it is still pending; after a plain close no error
  text is set either.
\<close>

theorem plain_close_leaves_client_waiting:
  "handleGenerate (\<lambda>r. []) ''a cat'' (Response True (Some (JObj [(''job_id'', JStr ''j1'')])))
       (initial_generator_state :: unit generator_state)
     = (initial_generator_state\<lparr>status := StPending, currentStep := JStr ''Starting generation...''\<rparr>,
        Some (Some (JStr ''j1'')))
   \<and> isGenerating (socket_run (\<lambda>d. None) (Some (JStr ''j1'')) () [Closed]
        (initial_generator_state\<lparr>status := StPending, currentStep := JStr ''Starting generation...''\<rparr>))
   \<and> error (socket_run (\<lambda>d. None) (Some (JStr ''j1'')) () [Closed]
        (initial_generator_state\<lparr>status := StPending, currentStep := JStr ''Starting generation...''\<rparr>))
       = ErrUndefined
   \<and> status (socket_run (\<lambda>d. None) (Some (JStr ''j1'')) () [TransportError, Closed]
        (initial_generator_state\<lparr>status := StPending, currentStep := JStr ''Starting generation...''\<rparr>))
       = StPending"
  by code_simp

subsection \<open>The job state machine\<close>

lemma transition_terminal: "terminal s \<Longrightarrow> transition s sig = s"
  by (cases s; cases sig) simp_all

lemma foldl_transition_terminal: "terminal s \<Longrightarrow> foldl transition s sigs = s"
  by (induction sigs) (simp_all add: transition_terminal)

lemma handle_signal_terminal:
  "registry srv jid = Some j \<Longrightarrow> terminal (j_status j) \<Longrightarrow> handle_signal jid sig srv = srv"
  by (simp add: handle_signal_def Let_def transition_terminal)

lemma handle_signal_other:
  "jid' \<noteq> jid \<Longrightarrow> registry (handle_signal jid' sig srv) jid = registry srv jid"
  by (simp add: handle_signal_def Let_def split: option.splits)

lemma step_terminal_record:
  assumes "registry srv jid = Some j" and "terminal (j_status j)"
  shows "registry (step x srv) jid = Some j"
proof (cases x)
  case (Submit jid')
  then show ?thesis using assms by (cases "jid' = jid") (simp_all add: submit_def split: option.splits)
next
  case (Publish jid' snap)
  then show ?thesis using assms by (cases "jid' = jid") (simp_all add: publish_def split: option.splits)
next
  case (Signal jid' sig)
  then show ?thesis using assms
    by (cases "jid' = jid") (simp_all add: handle_signal_terminal handle_signal_other)
next
  case (Cancel jid')
  then show ?thesis using assms
    by (cases "jid' = jid")
      (simp_all add: cancel_job_def handle_signal_terminal handle_signal_other split: option.splits)
next
  case (Subscribe c jid')
  then show ?thesis using assms by (simp add: subscribe_def split: option.splits)
next
  case (Disconnect c)
  then show ?thesis using assms by (simp add: disconnect_def)
qed

lemma run_terminal_record:
  "registry srv jid = Some j \<Longrightarrow> terminal (j_status j) \<Longrightarrow> registry (run xs srv) jid = Some j"
  by (induction xs arbitrary: srv) (simp_all add: step_terminal_record)

text \<open>
  Claim C3. The status of a job is one of pending, running, completed, error and stopped.
  Pending and running are the states that are not terminal, and the three terminal states
  are absorbing: no signal and no sequence of signals moves a job out of one, and nothing
  that happens to the service changes the registry record of a job that has ended. The
  statuses the client declares for generation and training jobs read as these five, and the
  training form's \<^verbatim>\<open>isTraining\<close> is exactly "not terminal".
\<close>

theorem job_status_machine:
  "(s = JobPending \<or> s = JobRunning \<or> s = JobCompleted \<or> s = JobError \<or> s = JobStopped)
   \<and> (\<not> terminal s \<longleftrightarrow> s = JobPending \<or> s = JobRunning)
   \<and> (terminal s \<longrightarrow> transition s sig = s \<and> foldl transition s sigs = s)
   \<and> (registry srv jid = Some j \<and> terminal (j_status j) \<longrightarrow> registry (run xs srv) jid = Some j)
   \<and> (terminal (status_of_generation gs) \<longleftrightarrow> gs = GenCompleted \<or> gs = GenError)
   \<and> (terminal (status_of_training ts) \<longleftrightarrow> ts = TrCompleted \<or> ts = TrError \<or> ts = TrStopped)
   \<and> (isTraining c \<longleftrightarrow> \<not> terminal (status_of_training (t_status c)))"
proof (intro conjI impI)
  show "s = JobPending \<or> s = JobRunning \<or> s = JobCompleted \<or> s = JobError \<or> s = JobStopped"
    by (cases s) simp_all
  show "\<not> terminal s \<longleftrightarrow> s = JobPending \<or> s = JobRunning"
    by (cases s) simp_all
  show "terminal (status_of_generation gs) \<longleftrightarrow> gs = GenCompleted \<or> gs = GenError"
    by (cases gs) simp_all
  show "terminal (status_of_training ts) \<longleftrightarrow> ts = TrCompleted \<or> ts = TrError \<or> ts = TrStopped"
    by (cases ts) simp_all
  show "isTraining c \<longleftrightarrow> \<not> terminal (status_of_training (t_status c))"
    by (cases "t_status c") (simp_all add: isTraining_def)
next
  assume "terminal s"
  then show "transition s sig = s" by (rule transition_terminal)
next
  assume "terminal s"
  then show "foldl transition s sigs = s" by (rule foldl_transition_terminal)
next
  assume "registry srv jid = Some j \<and> terminal (j_status j)"
  then show "registry (run xs srv) jid = Some j"
    by (simp add: run_terminal_record)
qed

theorem job_status_machine_witness:
  "terminal JobStopped
   \<and> transition JobStopped FirstProgress = JobStopped
   \<and> foldl transition JobStopped [WorkerStarted, WorkerExit 0 True] = JobStopped
   \<and> registry (run [Submit ''j1'', Cancel ''j1''] empty_service) ''j1''
       = Some (new_job\<lparr>j_status := JobStopped\<rparr>)
   \<and> terminal (j_status (new_job\<lparr>j_status := JobStopped\<rparr>))
   \<and> registry (run [Publish ''j1'' \<lparr>snap_phase = Decoding, snap_fraction = 1 / 2, snap_label = ''decoding''\<rparr>,
                      Signal ''j1'' (WorkerExit 0 True)]
                 (run [Submit ''j1'', Cancel ''j1''] empty_service)) ''j1''
       = Some (new_job\<lparr>j_status := JobStopped\<rparr>)"
proof -
  let ?srv = "run [Submit ''j1'', Cancel ''j1''] empty_service"
  let ?j = "new_job\<lparr>j_status := JobStopped\<rparr>"
  let ?xs = "[Publish ''j1'' \<lparr>snap_phase = Decoding, snap_fraction = 1 / 2, snap_label = ''decoding''\<rparr>,
              Signal ''j1'' (WorkerExit 0 True)]"
  have a: "terminal JobStopped" by simp
  have b: "registry ?srv ''j1'' = Some ?j"
    by (simp add: submit_def cancel_job_def handle_signal_def empty_service_def new_job_def Let_def)
  have c: "terminal (j_status ?j)" by simp
  note t = job_status_machine [of JobStopped FirstProgress "[WorkerStarted, WorkerExit 0 True]"
      ?srv "''j1''" ?j ?xs]
  have d: "transition JobStopped FirstProgress = JobStopped
      \<and> foldl transition JobStopped [WorkerStarted, WorkerExit 0 True] = JobStopped"
    using t [THEN conjunct2, THEN conjunct2, THEN conjunct1, THEN mp, OF a] .
  have e: "registry (run ?xs ?srv) ''j1'' = Some ?j"
    using t [THEN conjunct2, THEN conjunct2, THEN conjunct2, THEN conjunct1, THEN mp, OF conjI [OF b c]] .
  show ?thesis
    by (intro conjI a b c e d [THEN conjunct1] d [THEN conjunct2])
qed

subsection \<open>Cancelling\<close>

lemma handle_signal_cancel_live:
  assumes "registry srv jid = Some j" and "\<not> terminal (j_status j)"
  shows "handle_signal jid CancelAccepted srv =
     srv\<lparr>registry := (registry srv)(jid \<mapsto> j\<lparr>j_status := JobStopped\<rparr>),
          subscriptions := detach jid (deliver jid (TerminalEvent (j\<lparr>j_status := JobStopped\<rparr>)) (subscriptions srv)),
          published := (published srv)(jid := published srv jid @ [TerminalEvent (j\<lparr>j_status := JobStopped\<rparr>)])\<rparr>"
  using assms by (cases "j_status j") (simp_all add: handle_signal_def Let_def)

lemma cancel_job_known:
  "registry srv jid = Some j \<Longrightarrow> cancel_job jid srv = (CancelOk, handle_signal jid CancelAccepted srv)"
  by (simp add: cancel_job_def)

lemma cancel_job_terminal:
  "registry srv jid = Some j \<Longrightarrow> terminal (j_status j) \<Longrightarrow> cancel_job jid srv = (CancelOk, srv)"
  by (simp add: cancel_job_def handle_signal_terminal)

lemma cancel_job_result_terminal:
  assumes "registry srv jid = Some j"
  shows "\<exists>j'. registry (snd (cancel_job jid srv)) jid = Some j' \<and> terminal (j_status j')"
proof (cases "terminal (j_status j)")
  case True
  with assms show ?thesis by (simp add: cancel_job_terminal)
next
  case False
  with assms show ?thesis
    by (simp add: cancel_job_known handle_signal_cancel_live)
qed

lemma stopTraining_ok: "stopTraining num_text (Response True body) = Inr ()"
  by (simp add: stopTraining_def)

lemma handleStopTraining_ok:
  "handleStopTraining num_text (Response True body) c
     = (if truthy (t_jobId c) then c\<lparr>t_status := TrStopped\<rparr> else c)"
  by (simp add: handleStopTraining_def stopTraining_ok)

text \<open>
  Claim C5. Cancelling a known job is never an error. The second of two cancels is a no-op:
  it answers ok and leaves the whole service as the first left it. Cancelling a job that has
  already ended is a no-op as well, the service is unchanged. Cancelling a job that is
  pending or running makes it stopped and publishes the stopped event once. At the client,
  \<^verbatim>\<open>stopTraining\<close> returns normally on the reply, \<^verbatim>\<open>handleStopTraining\<close> records no error, and
  calling it a second time changes nothing in the form's state.
\<close>

theorem cancel_is_idempotent:
  "registry srv jid = Some j \<longrightarrow>
     fst (cancel_job jid srv) = CancelOk
     \<and> cancel_job jid (snd (cancel_job jid srv)) = (CancelOk, snd (cancel_job jid srv))
     \<and> (terminal (j_status j) \<longrightarrow> cancel_job jid srv = (CancelOk, srv))
     \<and> (\<not> terminal (j_status j) \<longrightarrow>
          registry (snd (cancel_job jid srv)) jid = Some (j\<lparr>j_status := JobStopped\<rparr>)
          \<and> published (snd (cancel_job jid srv)) jid
              = published srv jid @ [TerminalEvent (j\<lparr>j_status := JobStopped\<rparr>)])
     \<and> stopTraining num_text (cancel_response (fst (cancel_job jid srv)) body) = Inr ()
     \<and> t_error (handleStopTraining num_text (cancel_response (fst (cancel_job jid srv)) body) c) = t_error c
     \<and> handleStopTraining num_text (cancel_response (fst (cancel_job jid (snd (cancel_job jid srv)))) body')
          (handleStopTraining num_text (cancel_response (fst (cancel_job jid srv)) body) c)
        = handleStopTraining num_text (cancel_response (fst (cancel_job jid srv)) body) c"
proof (intro impI)
  assume r: "registry srv jid = Some j"
  have ok: "fst (cancel_job jid srv) = CancelOk" using r by (simp add: cancel_job_known)
  from cancel_job_result_terminal [OF r] obtain j' where
    j': "registry (snd (cancel_job jid srv)) jid = Some j'" "terminal (j_status j')" by blast
  have second: "cancel_job jid (snd (cancel_job jid srv)) = (CancelOk, snd (cancel_job jid srv))"
    using j' by (rule cancel_job_terminal)
  have tm: "terminal (j_status j) \<longrightarrow> cancel_job jid srv = (CancelOk, srv)"
    using r by (simp add: cancel_job_terminal)
  have live: "\<not> terminal (j_status j) \<longrightarrow>
          registry (snd (cancel_job jid srv)) jid = Some (j\<lparr>j_status := JobStopped\<rparr>)
          \<and> published (snd (cancel_job jid srv)) jid
              = published srv jid @ [TerminalEvent (j\<lparr>j_status := JobStopped\<rparr>)]"
    using r by (simp add: cancel_job_known handle_signal_cancel_live)
  have st: "stopTraining num_text (cancel_response (fst (cancel_job jid srv)) body) = Inr ()"
    by (simp add: ok cancel_response_def stopTraining_ok)
  have err: "t_error (handleStopTraining num_text (cancel_response (fst (cancel_job jid srv)) body) c) = t_error c"
    by (simp add: ok cancel_response_def handleStopTraining_ok)
  have twice: "handleStopTraining num_text (cancel_response (fst (cancel_job jid (snd (cancel_job jid srv)))) body')
          (handleStopTraining num_text (cancel_response (fst (cancel_job jid srv)) body) c)
        = handleStopTraining num_text (cancel_response (fst (cancel_job jid srv)) body) c"
    by (simp add: ok second cancel_response_def handleStopTraining_ok)
  show "fst (cancel_job jid srv) = CancelOk
     \<and> cancel_job jid (snd (cancel_job jid srv)) = (CancelOk, snd (cancel_job jid srv))
     \<and> (terminal (j_status j) \<longrightarrow> cancel_job jid srv = (CancelOk, srv))
     \<and> (\<not> terminal (j_status j) \<longrightarrow>
          registry (snd (cancel_job jid srv)) jid = Some (j\<lparr>j_status := JobStopped\<rparr>)
          \<and> published (snd (cancel_job jid srv)) jid
              = published srv jid @ [TerminalEvent (j\<lparr>j_status := JobStopped\<rparr>)])
     \<and> stopTraining num_text (cancel_response (fst (cancel_job jid srv)) body) = Inr ()
     \<and> t_error (handleStopTraining num_text (cancel_response (fst (cancel_job jid srv)) body) c) = t_error c
     \<and> handleStopTraining num_text (cancel_response (fst (cancel_job jid (snd (cancel_job jid srv)))) body')
          (handleStopTraining num_text (cancel_response (fst (cancel_job jid srv)) body) c)
        = handleStopTraining num_text (cancel_response (fst (cancel_job jid srv)) body) c"
    by (intro conjI ok second tm live st err twice)
qed

theorem cancel_is_idempotent_witness:
  "registry (run [Submit ''j1'', Signal ''j1'' WorkerStarted] empty_service) ''j1''
     = Some (new_job\<lparr>j_status := JobRunning\<rparr>)
   \<and> \<not> terminal (j_status (new_job\<lparr>j_status := JobRunning\<rparr>))
   \<and> registry (snd (cancel_job ''j1'' (run [Submit ''j1'', Signal ''j1'' WorkerStarted] empty_service))) ''j1''
     = Some (new_job\<lparr>j_status := JobStopped\<rparr>)
   \<and> published (snd (cancel_job ''j1'' (run [Submit ''j1'', Signal ''j1'' WorkerStarted] empty_service))) ''j1''
     = [TerminalEvent (new_job\<lparr>j_status := JobStopped\<rparr>)]
   \<and> published (snd (cancel_job ''j1''
        (snd (cancel_job ''j1'' (run [Submit ''j1'', Signal ''j1'' WorkerStarted] empty_service))))) ''j1''
     = [TerminalEvent (new_job\<lparr>j_status := JobStopped\<rparr>)]
   \<and> t_status (handleStopTraining (\<lambda>r. [])
        (cancel_response (fst (cancel_job ''j1'' (run [Submit ''j1'', Signal ''j1'' WorkerStarted] empty_service))) None)
        \<lparr>t_status = TrTraining, t_error = ErrUndefined, t_jobId = Some (JStr ''j1'')\<rparr>) = TrStopped"
proof -
  let ?srv = "run [Submit ''j1'', Signal ''j1'' WorkerStarted] empty_service"
  let ?j = "new_job\<lparr>j_status := JobRunning\<rparr>"
  let ?c = "\<lparr>t_status = TrTraining, t_error = ErrUndefined, t_jobId = Some (JStr ''j1'')\<rparr>"
  have a: "registry ?srv ''j1'' = Some ?j"
    by (simp add: submit_def handle_signal_def empty_service_def new_job_def Let_def)
  have b: "\<not> terminal (j_status ?j)" by simp
  have p: "published ?srv ''j1'' = []"
    by (simp add: submit_def handle_signal_def empty_service_def new_job_def Let_def)
  have u: "?j\<lparr>j_status := JobStopped\<rparr> = new_job\<lparr>j_status := JobStopped\<rparr>" by simp
  note t = cancel_is_idempotent [of ?srv "''j1''" ?j "\<lambda>r. []" None ?c None, THEN mp, OF a]
  have ok: "fst (cancel_job ''j1'' ?srv) = CancelOk" using t by (rule conjunct1)
  have second: "cancel_job ''j1'' (snd (cancel_job ''j1'' ?srv)) = (CancelOk, snd (cancel_job ''j1'' ?srv))"
    using t [THEN conjunct2] by (rule conjunct1)
  have live: "registry (snd (cancel_job ''j1'' ?srv)) ''j1'' = Some (?j\<lparr>j_status := JobStopped\<rparr>)
      \<and> published (snd (cancel_job ''j1'' ?srv)) ''j1''
          = published ?srv ''j1'' @ [TerminalEvent (?j\<lparr>j_status := JobStopped\<rparr>)]"
    using t [THEN conjunct2, THEN conjunct2, THEN conjunct2, THEN conjunct1, THEN mp, OF b] .
  have c1: "registry (snd (cancel_job ''j1'' ?srv)) ''j1'' = Some (new_job\<lparr>j_status := JobStopped\<rparr>)"
    using live [THEN conjunct1] by (simp only: u)
  have c2: "published (snd (cancel_job ''j1'' ?srv)) ''j1'' = [TerminalEvent (new_job\<lparr>j_status := JobStopped\<rparr>)]"
    using live [THEN conjunct2] by (simp only: u p append_Nil)
  have c3: "published (snd (cancel_job ''j1'' (snd (cancel_job ''j1'' ?srv)))) ''j1''
      = [TerminalEvent (new_job\<lparr>j_status := JobStopped\<rparr>)]"
    by (simp only: second snd_conv c2)
  have c4: "t_status (handleStopTraining (\<lambda>r. []) (cancel_response (fst (cancel_job ''j1'' ?srv)) None) ?c) = TrStopped"
    by (simp only: ok) (simp add: cancel_response_def handleStopTraining_ok)
  show ?thesis by (intro conjI a b c1 c2 c3 c4)
qed

subsection \<open>Subscribing\<close>

lemma replays_subscribe:
  "registry srv jid = Some j \<Longrightarrow>
     replays (subscribe c jid srv) c jid (snapshot_event j) (length (published srv jid))"
  by (simp add: replays_def subscribe_def)

lemma replays_submit:
  "replays srv c jid first n \<Longrightarrow> replays (submit jid' srv) c jid first n"
  by (cases "jid' = jid") (auto simp: replays_def submit_def split: option.splits)

lemma replays_publish:
  assumes "replays srv c jid first n"
  shows "replays (publish jid' snap srv) c jid first n"
proof (cases "registry srv jid'")
  case None
  then show ?thesis using assms by (simp add: publish_def)
next
  case (Some j)
  show ?thesis
  proof (cases "terminal (j_status j)")
    case True
    with Some show ?thesis using assms by (simp add: publish_def)
  next
    case False
    from assms obtain sub where sub: "subscriptions srv c = Some sub" "sub_job sub = jid"
      "sub_delivered sub = first # drop n (published srv jid)" "n \<le> length (published srv jid)"
      "sub_attached sub \<or> (case registry srv jid of None \<Rightarrow> False | Some j \<Rightarrow> terminal (j_status j))"
      by (auto simp: replays_def split: option.splits)
    show ?thesis
    proof (cases "jid' = jid")
      case True
      with Some False sub(5) have att: "sub_attached sub" by simp
      show ?thesis using True Some False sub att
        by (simp add: replays_def publish_def deliver_def)
    next
      case diff: False
      show ?thesis using diff Some False sub
        by (simp add: replays_def publish_def deliver_def)
    qed
  qed
qed

lemma replays_handle_signal:
  assumes "replays srv c jid first n"
  shows "replays (handle_signal jid' sig srv) c jid first n"
proof (cases "registry srv jid'")
  case None
  then show ?thesis using assms by (simp add: handle_signal_def)
next
  case (Some j)
  from assms obtain sub where sub: "subscriptions srv c = Some sub" "sub_job sub = jid"
    "sub_delivered sub = first # drop n (published srv jid)" "n \<le> length (published srv jid)"
    "sub_attached sub \<or> (case registry srv jid of None \<Rightarrow> False | Some j \<Rightarrow> terminal (j_status j))"
    by (auto simp: replays_def split: option.splits)
  show ?thesis
  proof (cases "transition (j_status j) sig = j_status j")
    case True
    with Some show ?thesis using assms by (simp add: handle_signal_def Let_def)
  next
    case moved: False
    then have live: "\<not> terminal (j_status j)" using transition_terminal by blast
    show ?thesis
    proof (cases "jid' = jid")
      case True
      with Some live sub(5) have att: "sub_attached sub" by simp
      show ?thesis using True Some moved sub att
        by (simp add: replays_def handle_signal_def Let_def deliver_def detach_def)
    next
      case diff: False
      show ?thesis using diff Some moved sub
        by (simp add: replays_def handle_signal_def Let_def deliver_def detach_def)
    qed
  qed
qed

lemma replays_cancel:
  "replays srv c jid first n \<Longrightarrow> replays (snd (cancel_job jid' srv)) c jid first n"
  by (simp add: cancel_job_def replays_handle_signal split: option.splits)

lemma replays_subscribe_other:
  "c' \<noteq> c \<Longrightarrow> replays srv c jid first n \<Longrightarrow> replays (subscribe c' jid' srv) c jid first n"
  by (auto simp: replays_def subscribe_def split: option.splits)

lemma replays_disconnect_other:
  "c' \<noteq> c \<Longrightarrow> replays srv c jid first n \<Longrightarrow> replays (disconnect c' srv) c jid first n"
  by (auto simp: replays_def disconnect_def split: option.splits)

lemma replays_step:
  "\<not> reconnects c x \<Longrightarrow> replays srv c jid first n \<Longrightarrow> replays (step x srv) c jid first n"
  by (cases x)
    (simp_all add: replays_submit replays_publish replays_handle_signal replays_cancel
      replays_subscribe_other replays_disconnect_other)

lemma replays_run:
  "\<not> list_ex (reconnects c) xs \<Longrightarrow> replays srv c jid first n \<Longrightarrow> replays (run xs srv) c jid first n"
  by (induction xs arbitrary: srv) (simp_all add: replays_step)

lemma replays_delivered:
  "replays srv c jid first n \<Longrightarrow> delivered_to srv c = first # drop n (published srv jid)"
  by (auto simp: replays_def delivered_to_def split: option.splits)

text \<open>
  Claim C2. The first message a subscriber is sent is the current state built from the
  registry's record of the job at the moment it subscribes. Whatever happens to the service
  afterwards (as long as the connection neither drops nor subscribes anew), the messages
  delivered to it are that snapshot followed by exactly the events published on the topic
  since, in publish order: the snapshot comes before every live event and nothing is missing
  between them.
\<close>

theorem subscriber_gets_snapshot_first:
  "registry srv jid = Some j \<and> \<not> list_ex (reconnects c) xs \<longrightarrow>
     delivered_to (subscribe c jid srv) c = [snapshot_event j]
     \<and> delivered_to (run xs (subscribe c jid srv)) c
         = snapshot_event j
           # drop (length (published srv jid)) (published (run xs (subscribe c jid srv)) jid)
     \<and> hd (delivered_to (run xs (subscribe c jid srv)) c) = snapshot_event j"
proof (intro impI)
  assume a: "registry srv jid = Some j \<and> \<not> list_ex (reconnects c) xs"
  then have r: "registry srv jid = Some j" and x: "\<not> list_ex (reconnects c) xs" by simp_all
  have one: "delivered_to (subscribe c jid srv) c = [snapshot_event j]"
    using r by (simp add: delivered_to_def subscribe_def)
  have inv: "replays (run xs (subscribe c jid srv)) c jid (snapshot_event j) (length (published srv jid))"
    using x replays_subscribe [OF r] by (rule replays_run)
  have all: "delivered_to (run xs (subscribe c jid srv)) c
      = snapshot_event j # drop (length (published srv jid)) (published (run xs (subscribe c jid srv)) jid)"
    using inv by (rule replays_delivered)
  have first: "hd (delivered_to (run xs (subscribe c jid srv)) c) = snapshot_event j"
    by (simp add: all)
  show "delivered_to (subscribe c jid srv) c = [snapshot_event j]
     \<and> delivered_to (run xs (subscribe c jid srv)) c
         = snapshot_event j
           # drop (length (published srv jid)) (published (run xs (subscribe c jid srv)) jid)
     \<and> hd (delivered_to (run xs (subscribe c jid srv)) c) = snapshot_event j"
    by (intro conjI one all first)
qed

theorem subscriber_gets_snapshot_first_witness:
  "registry (run [Submit ''j1'', Publish ''j1'' \<lparr>snap_phase = Computing, snap_fraction = 1 / 4, snap_label = ''denoising''\<rparr>]
       empty_service) ''j1''
     = Some \<lparr>j_status = JobRunning,
             j_progress = \<lparr>snap_phase = Computing, snap_fraction = 1 / 4, snap_label = ''denoising''\<rparr>\<rparr>
   \<and> \<not> list_ex (reconnects 7)
        [Publish ''j1'' \<lparr>snap_phase = Decoding, snap_fraction = 1 / 2, snap_label = ''decoding''\<rparr>,
         Subscribe 8 ''j1'', Signal ''j1'' (WorkerExit 0 True),
         Publish ''j1'' \<lparr>snap_phase = Finalizing, snap_fraction = 1, snap_label = ''late''\<rparr>]
   \<and> delivered_to
        (run [Publish ''j1'' \<lparr>snap_phase = Decoding, snap_fraction = 1 / 2, snap_label = ''decoding''\<rparr>,
              Subscribe 8 ''j1'', Signal ''j1'' (WorkerExit 0 True),
              Publish ''j1'' \<lparr>snap_phase = Finalizing, snap_fraction = 1, snap_label = ''late''\<rparr>]
          (subscribe 7 ''j1''
            (run [Submit ''j1'', Publish ''j1'' \<lparr>snap_phase = Computing, snap_fraction = 1 / 4, snap_label = ''denoising''\<rparr>]
               empty_service))) 7
     = [CurrentState \<lparr>j_status = JobRunning,
                      j_progress = \<lparr>snap_phase = Computing, snap_fraction = 1 / 4, snap_label = ''denoising''\<rparr>\<rparr>,
        ProgressEvent \<lparr>snap_phase = Decoding, snap_fraction = 1 / 2, snap_label = ''decoding''\<rparr>,
        TerminalEvent \<lparr>j_status = JobCompleted,
                       j_progress = \<lparr>snap_phase = Decoding, snap_fraction = 1 / 2, snap_label = ''decoding''\<rparr>\<rparr>]"
proof -
  let ?s1 = "\<lparr>snap_phase = Computing, snap_fraction = 1 / 4, snap_label = ''denoising''\<rparr>"
  let ?s2 = "\<lparr>snap_phase = Decoding, snap_fraction = 1 / 2, snap_label = ''decoding''\<rparr>"
  let ?s3 = "\<lparr>snap_phase = Finalizing, snap_fraction = 1, snap_label = ''late''\<rparr>"
  let ?srv = "run [Submit ''j1'', Publish ''j1'' ?s1] empty_service"
  let ?xs = "[Publish ''j1'' ?s2, Subscribe 8 ''j1'', Signal ''j1'' (WorkerExit 0 True), Publish ''j1'' ?s3]"
  let ?j = "\<lparr>j_status = JobRunning, j_progress = ?s1\<rparr>"
  have a: "registry ?srv ''j1'' = Some ?j"
    by (simp add: submit_def publish_def empty_service_def new_job_def)
  have b: "\<not> list_ex (reconnects 7) ?xs" by simp
  have p0: "published ?srv ''j1'' = [ProgressEvent ?s1]"
    by (simp add: submit_def publish_def empty_service_def new_job_def)
  have p1: "published (run ?xs (subscribe 7 ''j1'' ?srv)) ''j1''
      = [ProgressEvent ?s1, ProgressEvent ?s2, TerminalEvent \<lparr>j_status = JobCompleted, j_progress = ?s2\<rparr>]"
    by (simp add: submit_def publish_def subscribe_def handle_signal_def empty_service_def new_job_def Let_def)
  have s: "snapshot_event ?j = CurrentState ?j" by (simp add: snapshot_event_def)
  note t = subscriber_gets_snapshot_first [of ?srv "''j1''" ?j 7 ?xs, THEN mp, OF conjI [OF a b]]
  have d: "delivered_to (run ?xs (subscribe 7 ''j1'' ?srv)) 7
      = snapshot_event ?j # drop (length (published ?srv ''j1'')) (published (run ?xs (subscribe 7 ''j1'' ?srv)) ''j1'')"
    using t [THEN conjunct2] by (rule conjunct1)
  have e: "delivered_to (run ?xs (subscribe 7 ''j1'' ?srv)) 7
      = [CurrentState ?j, ProgressEvent ?s2, TerminalEvent \<lparr>j_status = JobCompleted, j_progress = ?s2\<rparr>]"
    by (simp only: d p0 p1 s) simp
  show ?thesis by (intro conjI a b e)
qed

end
